theory Spec2Isabelle
  imports Main "HOL-Library.Word"
begin

section \<open>Data model\<close>

text \<open>
  The service of \<^verbatim>\<open>src/services/webCryptoFunction.service.ts\<close> is a thin layer over
  two libraries it does not contain: node-forge (the software backend, working on
  byte strings) and the platform's Web Crypto objects (the native backend, working on
  buffers and key handles). Both are parameters of the model: a record of the
  functions the service calls. Every backend function may throw, so each returns
  \<open>error + 'a\<close>; an object the library mutates in place (a digest, an HMAC or a
  decipher context) is passed in and returned updated.

  An \<^verbatim>\<open>ArrayBuffer\<close> is a list of bytes. A JavaScript string is a list of 16-bit code
  units; a byte string is such a string whose code units are all below 256.
  Algorithm identifiers, key formats and key usages are JavaScript strings as well,
  but only ever literal ASCII names, and are written as HOL strings.
\<close>

type_synonym byte = "8 word"
type_synonym ArrayBuffer = "byte list"
type_synonym jsstring = "16 word list"

datatype error = Error string

text \<open>A parameter of type \<^verbatim>\<open>string | ArrayBuffer\<close>, told apart by \<^verbatim>\<open>typeof\<close>.\<close>

datatype StringOrBuffer = Str jsstring | Buf ArrayBuffer

text \<open>
  The algorithm descriptor objects handed to the native backend:
  \<^verbatim>\<open>{ name }\<close>, \<^verbatim>\<open>{ name, hash: { name } }\<close>, \<^verbatim>\<open>{ name, iv }\<close> and
  \<^verbatim>\<open>{ name, salt, iterations, hash: { name } }\<close>.
\<close>

datatype AlgorithmParams =
    Name string
  | NameHash string string
  | NameIv string ArrayBuffer
  | Pbkdf2Params string ArrayBuffer nat string

text \<open>The settled state of the promise a method returns.\<close>

datatype 'a Promise = Resolved 'a | Rejected error

subsection \<open>The software backend (node-forge)\<close>

text \<open>
  \<open>'md\<close>, \<open>'hm\<close>, \<open>'dc\<close> and \<open>'bb\<close> are the library's message digest, HMAC,
  decipher and byte buffer objects. \<^verbatim>\<open>decipher.finish()\<close> returns a boolean;
  \<^verbatim>\<open>decipher.output\<close> and \<^verbatim>\<open>buffer.data\<close> are field reads.
\<close>

record ('md, 'hm, 'dc, 'bb) Forge =
  f_pbkdf2 :: "jsstring \<Rightarrow> jsstring \<Rightarrow> nat \<Rightarrow> nat \<Rightarrow> string \<Rightarrow> error + jsstring"
  f_md_sha1_create :: "error + 'md"
  f_md_sha256_create :: "error + 'md"
  f_md_sha512_create :: "error + 'md"
  f_md_update :: "'md \<Rightarrow> jsstring \<Rightarrow> string \<Rightarrow> error + 'md"
  f_md_digest :: "'md \<Rightarrow> error + 'bb"
  f_hmac_create :: "error + 'hm"
  f_hmac_start :: "'hm \<Rightarrow> string \<Rightarrow> jsstring \<Rightarrow> error + 'hm"
  f_hmac_update :: "'hm \<Rightarrow> jsstring \<Rightarrow> error + 'hm"
  f_hmac_digest :: "'hm \<Rightarrow> error + 'bb"
  f_util_encodeUtf8 :: "jsstring \<Rightarrow> error + jsstring"
  f_util_createBuffer :: "jsstring \<Rightarrow> error + 'bb"
  f_cipher_createDecipher :: "string \<Rightarrow> jsstring \<Rightarrow> error + 'dc"
  f_decipher_start :: "'dc \<Rightarrow> jsstring \<Rightarrow> error + 'dc"
  f_decipher_update :: "'dc \<Rightarrow> 'bb \<Rightarrow> error + 'dc"
  f_decipher_finish :: "'dc \<Rightarrow> error + (bool \<times> 'dc)"
  f_decipher_output :: "'dc \<Rightarrow> 'bb"
  f_buffer_data :: "'bb \<Rightarrow> jsstring"
  f_buffer_getBytes :: "'bb \<Rightarrow> error + jsstring"

subsection \<open>The native backend (Web Crypto)\<close>

text \<open>
  \<open>'k\<close> is the opaque \<^verbatim>\<open>CryptoKey\<close> handle. The methods of \<^verbatim>\<open>SubtleCrypto\<close> return
  promises that the service awaits at once: a rejection is thrown into the awaiting
  method, so it is the \<open>Inl\<close> of the result here. \<^verbatim>\<open>getRandomValues\<close> overwrites the
  typed array it is given and cannot change its length: it is given the length and
  returns the byte it stored at each index.
\<close>

record 'k SubtleCrypto =
  s_importKey :: "string \<Rightarrow> ArrayBuffer \<Rightarrow> AlgorithmParams \<Rightarrow> bool \<Rightarrow> string list \<Rightarrow> error + 'k"
  s_deriveBits :: "AlgorithmParams \<Rightarrow> 'k \<Rightarrow> nat \<Rightarrow> error + ArrayBuffer"
  s_digest :: "AlgorithmParams \<Rightarrow> ArrayBuffer \<Rightarrow> error + ArrayBuffer"
  s_sign :: "AlgorithmParams \<Rightarrow> 'k \<Rightarrow> ArrayBuffer \<Rightarrow> error + ArrayBuffer"
  s_encrypt :: "AlgorithmParams \<Rightarrow> 'k \<Rightarrow> ArrayBuffer \<Rightarrow> error + ArrayBuffer"
  s_decrypt :: "AlgorithmParams \<Rightarrow> 'k \<Rightarrow> ArrayBuffer \<Rightarrow> error + ArrayBuffer"

record 'k Crypto =
  c_subtle :: "'k SubtleCrypto"
  c_getRandomValues :: "nat \<Rightarrow> error + (nat \<Rightarrow> byte)"

record 'k Window =
  w_crypto :: "'k Crypto"

record PlatformUtilsService =
  p_isEdge :: "unit \<Rightarrow> bool"

subsection \<open>Backend calls as observable events\<close>

text \<open>
  Which backend a method uses is what it calls. A computation carries the list of
  backend calls it made, in order, next to its outcome.
\<close>

datatype 'k call =
    Forge_pbkdf2 jsstring jsstring nat nat string
  | Forge_md_sha1_create
  | Forge_md_sha256_create
  | Forge_md_sha512_create
  | Forge_md_update jsstring string
  | Forge_md_digest
  | Forge_hmac_create
  | Forge_hmac_start string jsstring
  | Forge_hmac_update jsstring
  | Forge_hmac_digest
  | Forge_util_encodeUtf8 jsstring
  | Forge_util_createBuffer jsstring
  | Forge_cipher_createDecipher string jsstring
  | Forge_decipher_start jsstring
  | Forge_decipher_update
  | Forge_decipher_finish
  | Forge_buffer_getBytes
  | Subtle_importKey string ArrayBuffer AlgorithmParams bool "string list"
  | Subtle_deriveBits AlgorithmParams 'k nat
  | Subtle_digest AlgorithmParams ArrayBuffer
  | Subtle_sign AlgorithmParams 'k ArrayBuffer
  | Subtle_encrypt AlgorithmParams 'k ArrayBuffer
  | Subtle_decrypt AlgorithmParams 'k ArrayBuffer
  | Crypto_getRandomValues nat

datatype backend = Software | Native

fun backend_of :: "'k call \<Rightarrow> backend" where
  "backend_of (Subtle_importKey f k a e u) = Native"
| "backend_of (Subtle_deriveBits a k n) = Native"
| "backend_of (Subtle_digest a d) = Native"
| "backend_of (Subtle_sign a k d) = Native"
| "backend_of (Subtle_encrypt a k d) = Native"
| "backend_of (Subtle_decrypt a k d) = Native"
| "backend_of (Crypto_getRandomValues n) = Native"
| "backend_of c = Software"

type_synonym ('k, 'a) js = "'k call list \<times> (error + 'a)"

definition js_return :: "'a \<Rightarrow> ('k, 'a) js" where
  "js_return x = ([], Inr x)"

definition js_call :: "'k call \<Rightarrow> error + 'a \<Rightarrow> ('k, 'a) js" where
  "js_call c r = ([c], r)"

text \<open>Sequencing: a throw ends the computation, and nothing after it is called.\<close>

definition js_bind :: "('k, 'a) js \<Rightarrow> ('a \<Rightarrow> ('k, 'b) js) \<Rightarrow> ('k, 'b) js" where
  "js_bind m f =
     (case m of
        (cs, Inl e) \<Rightarrow> (cs, Inl e)
      | (cs, Inr x) \<Rightarrow> (case f x of (cs', r) \<Rightarrow> (cs @ cs', r)))"

text \<open>
  An \<^verbatim>\<open>async\<close> method returns a promise whatever its body does: a value returned
  resolves it, an exception thrown rejects it.
\<close>

definition async :: "('k, 'a) js \<Rightarrow> 'k call list \<times> 'a Promise" where
  "async m = (case m of (cs, Inl e) \<Rightarrow> (cs, Rejected e) | (cs, Inr x) \<Rightarrow> (cs, Resolved x))"

abbreviation (input) calls :: "'c list \<times> 'r \<Rightarrow> 'c list" where
  "calls \<equiv> fst"

abbreviation (input) outcome :: "'c list \<times> 'r \<Rightarrow> 'r" where
  "outcome \<equiv> snd"

subsection \<open>Calling the backends\<close>

text \<open>Each call of a backend function is recorded with the data it was given.\<close>

definition forge_pbkdf2 ::
  "('md, 'hm, 'dc, 'bb) Forge \<Rightarrow> jsstring \<Rightarrow> jsstring \<Rightarrow> nat \<Rightarrow> nat \<Rightarrow> string \<Rightarrow> ('k, jsstring) js" where
  "forge_pbkdf2 F p s c dkLen md = js_call (Forge_pbkdf2 p s c dkLen md) (f_pbkdf2 F p s c dkLen md)"

definition forge_md_sha1_create :: "('md, 'hm, 'dc, 'bb) Forge \<Rightarrow> ('k, 'md) js" where
  "forge_md_sha1_create F = js_call Forge_md_sha1_create (f_md_sha1_create F)"

definition forge_md_sha256_create :: "('md, 'hm, 'dc, 'bb) Forge \<Rightarrow> ('k, 'md) js" where
  "forge_md_sha256_create F = js_call Forge_md_sha256_create (f_md_sha256_create F)"

definition forge_md_sha512_create :: "('md, 'hm, 'dc, 'bb) Forge \<Rightarrow> ('k, 'md) js" where
  "forge_md_sha512_create F = js_call Forge_md_sha512_create (f_md_sha512_create F)"

definition forge_md_update ::
  "('md, 'hm, 'dc, 'bb) Forge \<Rightarrow> 'md \<Rightarrow> jsstring \<Rightarrow> string \<Rightarrow> ('k, 'md) js" where
  "forge_md_update F md msg enc = js_call (Forge_md_update msg enc) (f_md_update F md msg enc)"

definition forge_md_digest :: "('md, 'hm, 'dc, 'bb) Forge \<Rightarrow> 'md \<Rightarrow> ('k, 'bb) js" where
  "forge_md_digest F md = js_call Forge_md_digest (f_md_digest F md)"

definition forge_hmac_create :: "('md, 'hm, 'dc, 'bb) Forge \<Rightarrow> ('k, 'hm) js" where
  "forge_hmac_create F = js_call Forge_hmac_create (f_hmac_create F)"

definition forge_hmac_start ::
  "('md, 'hm, 'dc, 'bb) Forge \<Rightarrow> 'hm \<Rightarrow> string \<Rightarrow> jsstring \<Rightarrow> ('k, 'hm) js" where
  "forge_hmac_start F h md key = js_call (Forge_hmac_start md key) (f_hmac_start F h md key)"

definition forge_hmac_update :: "('md, 'hm, 'dc, 'bb) Forge \<Rightarrow> 'hm \<Rightarrow> jsstring \<Rightarrow> ('k, 'hm) js" where
  "forge_hmac_update F h msg = js_call (Forge_hmac_update msg) (f_hmac_update F h msg)"

definition forge_hmac_digest :: "('md, 'hm, 'dc, 'bb) Forge \<Rightarrow> 'hm \<Rightarrow> ('k, 'bb) js" where
  "forge_hmac_digest F h = js_call Forge_hmac_digest (f_hmac_digest F h)"

definition forge_util_encodeUtf8 :: "('md, 'hm, 'dc, 'bb) Forge \<Rightarrow> jsstring \<Rightarrow> ('k, jsstring) js" where
  "forge_util_encodeUtf8 F str = js_call (Forge_util_encodeUtf8 str) (f_util_encodeUtf8 F str)"

definition forge_util_createBuffer :: "('md, 'hm, 'dc, 'bb) Forge \<Rightarrow> jsstring \<Rightarrow> ('k, 'bb) js" where
  "forge_util_createBuffer F b = js_call (Forge_util_createBuffer b) (f_util_createBuffer F b)"

definition forge_cipher_createDecipher ::
  "('md, 'hm, 'dc, 'bb) Forge \<Rightarrow> string \<Rightarrow> jsstring \<Rightarrow> ('k, 'dc) js" where
  "forge_cipher_createDecipher F alg key =
     js_call (Forge_cipher_createDecipher alg key) (f_cipher_createDecipher F alg key)"

definition forge_decipher_start :: "('md, 'hm, 'dc, 'bb) Forge \<Rightarrow> 'dc \<Rightarrow> jsstring \<Rightarrow> ('k, 'dc) js" where
  "forge_decipher_start F d iv = js_call (Forge_decipher_start iv) (f_decipher_start F d iv)"

definition forge_decipher_update :: "('md, 'hm, 'dc, 'bb) Forge \<Rightarrow> 'dc \<Rightarrow> 'bb \<Rightarrow> ('k, 'dc) js" where
  "forge_decipher_update F d input = js_call Forge_decipher_update (f_decipher_update F d input)"

definition forge_decipher_finish :: "('md, 'hm, 'dc, 'bb) Forge \<Rightarrow> 'dc \<Rightarrow> ('k, bool \<times> 'dc) js" where
  "forge_decipher_finish F d = js_call Forge_decipher_finish (f_decipher_finish F d)"

definition forge_buffer_getBytes :: "('md, 'hm, 'dc, 'bb) Forge \<Rightarrow> 'bb \<Rightarrow> ('k, jsstring) js" where
  "forge_buffer_getBytes F b = js_call Forge_buffer_getBytes (f_buffer_getBytes F b)"

definition subtle_importKey ::
  "'k SubtleCrypto \<Rightarrow> string \<Rightarrow> ArrayBuffer \<Rightarrow> AlgorithmParams \<Rightarrow> bool \<Rightarrow> string list \<Rightarrow> ('k, 'k) js" where
  "subtle_importKey S format keyData alg extractable usages =
     js_call (Subtle_importKey format keyData alg extractable usages)
       (s_importKey S format keyData alg extractable usages)"

definition subtle_deriveBits ::
  "'k SubtleCrypto \<Rightarrow> AlgorithmParams \<Rightarrow> 'k \<Rightarrow> nat \<Rightarrow> ('k, ArrayBuffer) js" where
  "subtle_deriveBits S alg key len = js_call (Subtle_deriveBits alg key len) (s_deriveBits S alg key len)"

definition subtle_digest :: "'k SubtleCrypto \<Rightarrow> AlgorithmParams \<Rightarrow> ArrayBuffer \<Rightarrow> ('k, ArrayBuffer) js" where
  "subtle_digest S alg d = js_call (Subtle_digest alg d) (s_digest S alg d)"

definition subtle_sign ::
  "'k SubtleCrypto \<Rightarrow> AlgorithmParams \<Rightarrow> 'k \<Rightarrow> ArrayBuffer \<Rightarrow> ('k, ArrayBuffer) js" where
  "subtle_sign S alg key d = js_call (Subtle_sign alg key d) (s_sign S alg key d)"

definition subtle_encrypt ::
  "'k SubtleCrypto \<Rightarrow> AlgorithmParams \<Rightarrow> 'k \<Rightarrow> ArrayBuffer \<Rightarrow> ('k, ArrayBuffer) js" where
  "subtle_encrypt S alg key d = js_call (Subtle_encrypt alg key d) (s_encrypt S alg key d)"

definition subtle_decrypt ::
  "'k SubtleCrypto \<Rightarrow> AlgorithmParams \<Rightarrow> 'k \<Rightarrow> ArrayBuffer \<Rightarrow> ('k, ArrayBuffer) js" where
  "subtle_decrypt S alg key d = js_call (Subtle_decrypt alg key d) (s_decrypt S alg key d)"

definition crypto_getRandomValues :: "'k Crypto \<Rightarrow> nat \<Rightarrow> ('k, nat \<Rightarrow> byte) js" where
  "crypto_getRandomValues C n = js_call (Crypto_getRandomValues n) (c_getRandomValues C n)"

section \<open>The byte bridge\<close>

text \<open>
  Modelled from the spec: \<^verbatim>\<open>Utils.fromBufferToByteString\<close> and
  \<^verbatim>\<open>Utils.fromByteStringToArray\<close> of \<^verbatim>\<open>src/misc/utils.ts\<close> are not among the source
  files. The spec has the first map each byte of a buffer directly to one code unit,
  and the second be its inverse, giving back one byte per code unit; a code unit is
  stored in a byte array element, which keeps its low 8 bits. Both are pure and
  total.
\<close>

definition fromBufferToByteString :: "ArrayBuffer \<Rightarrow> jsstring" where
  "fromBufferToByteString buffer = map ucast buffer"

definition fromByteStringToArray :: "jsstring \<Rightarrow> ArrayBuffer" where
  "fromByteStringToArray str = map ucast str"

text \<open>
  The modules the service imports: node-forge, and \<^verbatim>\<open>Utils.fromUtf8ToArray\<close>, of
  which the spec says only that it UTF-8-encodes a text and is pure and total. It is
  a parameter.
\<close>

record ('md, 'hm, 'dc, 'bb) Imports =
  forge :: "('md, 'hm, 'dc, 'bb) Forge"
  Utils_fromUtf8ToArray :: "jsstring \<Rightarrow> ArrayBuffer"

section \<open>WebCryptoFunctionService\<close>

record 'k WebCryptoFunctionService =
  this_win :: "'k Window"
  this_platformUtilsService :: PlatformUtilsService
  this_crypto :: "'k Crypto"
  this_subtle :: "'k SubtleCrypto"
  this_isEdge :: bool

definition constructor :: "'k Window \<Rightarrow> PlatformUtilsService \<Rightarrow> 'k WebCryptoFunctionService" where
  "constructor win platformUtilsService =
     \<lparr> this_win = win,
       this_platformUtilsService = platformUtilsService,
       this_crypto = w_crypto win,
       this_subtle = c_subtle (w_crypto win),
       this_isEdge = p_isEdge platformUtilsService () \<rparr>"

definition toBuf :: "('md, 'hm, 'dc, 'bb) Imports \<Rightarrow> StringOrBuffer \<Rightarrow> ArrayBuffer" where
  "toBuf im v =
     (case v of
        Str s \<Rightarrow> Utils_fromUtf8ToArray im s
      | Buf b \<Rightarrow> b)"

definition toByteString :: "('md, 'hm, 'dc, 'bb) Imports \<Rightarrow> StringOrBuffer \<Rightarrow> ('k, jsstring) js" where
  "toByteString im v =
     (case v of
        Str s \<Rightarrow> forge_util_encodeUtf8 (forge im) s
      | Buf b \<Rightarrow> js_return (fromBufferToByteString b))"

definition toWebCryptoAlgorithm :: "string \<Rightarrow> string" where
  "toWebCryptoAlgorithm algorithm =
     (if algorithm = ''sha1'' then ''SHA-1''
      else if algorithm = ''sha256'' then ''SHA-256'' else ''SHA-512'')"

definition pbkdf2 ::
  "('md, 'hm, 'dc, 'bb) Imports \<Rightarrow> 'k WebCryptoFunctionService \<Rightarrow> StringOrBuffer \<Rightarrow> StringOrBuffer \<Rightarrow>
     string \<Rightarrow> nat \<Rightarrow> 'k call list \<times> ArrayBuffer Promise" where
  "pbkdf2 im this password salt algorithm iterations = async
     (if this_isEdge this then
        (let forgeLen = (if algorithm = ''sha256'' then 32 else 64) in
         js_bind (toByteString im password) (\<lambda>passwordBytes.
         js_bind (toByteString im salt) (\<lambda>saltBytes.
         js_bind (forge_pbkdf2 (forge im) passwordBytes saltBytes iterations forgeLen algorithm)
           (\<lambda>derivedKeyBytes.
         js_return (fromByteStringToArray derivedKeyBytes)))))
      else
        (let wcLen = (if algorithm = ''sha256'' then 256 else 512);
             passwordBuf = toBuf im password;
             saltBuf = toBuf im salt;
             pbkdf2Params =
               Pbkdf2Params ''PBKDF2'' saltBuf iterations (toWebCryptoAlgorithm algorithm) in
         js_bind (subtle_importKey (this_subtle this) ''raw'' passwordBuf (Name ''PBKDF2'') False
                    [''deriveBits'']) (\<lambda>impKey.
         subtle_deriveBits (this_subtle this) pbkdf2Params impKey wcLen)))"

definition hash ::
  "('md, 'hm, 'dc, 'bb) Imports \<Rightarrow> 'k WebCryptoFunctionService \<Rightarrow> StringOrBuffer \<Rightarrow> string \<Rightarrow>
     'k call list \<times> ArrayBuffer Promise" where
  "hash im this v algorithm = async
     (if this_isEdge this then
        js_bind
          (if algorithm = ''sha1'' then forge_md_sha1_create (forge im)
           else if algorithm = ''sha256'' then forge_md_sha256_create (forge im)
           else forge_md_sha512_create (forge im)) (\<lambda>md.
        js_bind (toByteString im v) (\<lambda>valueBytes.
        js_bind (forge_md_update (forge im) md valueBytes ''raw'') (\<lambda>md.
        js_bind (forge_md_digest (forge im) md) (\<lambda>d.
        js_return (fromByteStringToArray (f_buffer_data (forge im) d))))))
      else
        (let valueBuf = toBuf im v in
         subtle_digest (this_subtle this) (Name (toWebCryptoAlgorithm algorithm)) valueBuf))"

definition hmac ::
  "('md, 'hm, 'dc, 'bb) Imports \<Rightarrow> 'k WebCryptoFunctionService \<Rightarrow> ArrayBuffer \<Rightarrow> ArrayBuffer \<Rightarrow> string \<Rightarrow>
     'k call list \<times> ArrayBuffer Promise" where
  "hmac im this v key algorithm = async
     (if this_isEdge this then
        js_bind (toByteString im (Buf v)) (\<lambda>valueBytes.
        js_bind (toByteString im (Buf key)) (\<lambda>keyBytes.
        js_bind (forge_hmac_create (forge im)) (\<lambda>hmac.
        js_bind (forge_hmac_start (forge im) hmac algorithm keyBytes) (\<lambda>hmac.
        js_bind (forge_hmac_update (forge im) hmac valueBytes) (\<lambda>hmac.
        js_bind (forge_hmac_digest (forge im) hmac) (\<lambda>d.
        js_bind (forge_buffer_getBytes (forge im) d) (\<lambda>bytes.
        js_return (fromByteStringToArray bytes))))))))
      else
        (let signingAlgorithm = NameHash ''HMAC'' (toWebCryptoAlgorithm algorithm) in
         js_bind (subtle_importKey (this_subtle this) ''raw'' key signingAlgorithm False [''sign''])
           (\<lambda>impKey.
         subtle_sign (this_subtle this) signingAlgorithm impKey v)))"

definition aesEncrypt ::
  "'k WebCryptoFunctionService \<Rightarrow> ArrayBuffer \<Rightarrow> ArrayBuffer \<Rightarrow> ArrayBuffer \<Rightarrow>
     'k call list \<times> ArrayBuffer Promise" where
  "aesEncrypt this d iv key = async
     (js_bind (subtle_importKey (this_subtle this) ''raw'' key (Name ''AES-CBC'') False [''encrypt''])
        (\<lambda>impKey.
      subtle_encrypt (this_subtle this) (NameIv ''AES-CBC'' iv) impKey d))"

text \<open>The boolean that \<^verbatim>\<open>decipher.finish()\<close> returns is not read.\<close>

definition aesDecryptSmall ::
  "('md, 'hm, 'dc, 'bb) Imports \<Rightarrow> 'k WebCryptoFunctionService \<Rightarrow> ArrayBuffer \<Rightarrow> ArrayBuffer \<Rightarrow>
     ArrayBuffer \<Rightarrow> 'k call list \<times> ArrayBuffer Promise" where
  "aesDecryptSmall im this d iv key = async
     (js_bind (toByteString im (Buf d)) (\<lambda>dataBytes.
      js_bind (toByteString im (Buf iv)) (\<lambda>ivBytes.
      js_bind (toByteString im (Buf key)) (\<lambda>keyBytes.
      js_bind (forge_util_createBuffer (forge im) dataBytes) (\<lambda>dataBuffer.
      js_bind (forge_cipher_createDecipher (forge im) ''AES-CBC'' keyBytes) (\<lambda>decipher.
      js_bind (forge_decipher_start (forge im) decipher ivBytes) (\<lambda>decipher.
      js_bind (forge_decipher_update (forge im) decipher dataBuffer) (\<lambda>decipher.
      js_bind (forge_decipher_finish (forge im) decipher) (\<lambda>(finished, decipher).
      js_bind (forge_buffer_getBytes (forge im) (f_decipher_output (forge im) decipher)) (\<lambda>bytes.
      js_return (fromByteStringToArray bytes)))))))))))"

definition aesDecryptLarge ::
  "'k WebCryptoFunctionService \<Rightarrow> ArrayBuffer \<Rightarrow> ArrayBuffer \<Rightarrow> ArrayBuffer \<Rightarrow>
     'k call list \<times> ArrayBuffer Promise" where
  "aesDecryptLarge this d iv key = async
     (js_bind (subtle_importKey (this_subtle this) ''raw'' key (Name ''AES-CBC'') False [''decrypt''])
        (\<lambda>impKey.
      subtle_decrypt (this_subtle this) (NameIv ''AES-CBC'' iv) impKey d))"

definition rsaEncrypt ::
  "'k WebCryptoFunctionService \<Rightarrow> ArrayBuffer \<Rightarrow> ArrayBuffer \<Rightarrow> string \<Rightarrow>
     'k call list \<times> ArrayBuffer Promise" where
  "rsaEncrypt this d publicKey algorithm = async
     (let rsaParams = NameHash ''RSA-OAEP'' (toWebCryptoAlgorithm algorithm) in
      js_bind (subtle_importKey (this_subtle this) ''spki'' publicKey rsaParams False [''encrypt''])
        (\<lambda>impKey.
      subtle_encrypt (this_subtle this) rsaParams impKey d))"

definition rsaDecrypt ::
  "'k WebCryptoFunctionService \<Rightarrow> ArrayBuffer \<Rightarrow> ArrayBuffer \<Rightarrow> string \<Rightarrow>
     'k call list \<times> ArrayBuffer Promise" where
  "rsaDecrypt this d privateKey algorithm = async
     (let rsaParams = NameHash ''RSA-OAEP'' (toWebCryptoAlgorithm algorithm) in
      js_bind (subtle_importKey (this_subtle this) ''pkcs8'' privateKey rsaParams False [''decrypt''])
        (\<lambda>impKey.
      subtle_decrypt (this_subtle this) rsaParams impKey d))"

text \<open>
  \<^verbatim>\<open>randomBytes\<close> is not \<^verbatim>\<open>async\<close>: what \<^verbatim>\<open>new Uint8Array(length)\<close> or
  \<^verbatim>\<open>getRandomValues\<close> throws leaves the method as an exception (\<open>Inl\<close>), and the
  promise it returns otherwise is already resolved. \<^verbatim>\<open>new Uint8Array(length)\<close> throws a
  RangeError on a negative length.
\<close>

definition randomBytes ::
  "'k WebCryptoFunctionService \<Rightarrow> int \<Rightarrow> ('k, ArrayBuffer Promise) js" where
  "randomBytes this len =
     js_bind (if len < 0 then ([], Inl (Error ''RangeError'')) else js_return (nat len)) (\<lambda>n.
     js_bind (crypto_getRandomValues (this_crypto this) n) (\<lambda>arr.
     js_return (Resolved (map arr [0..<n]))))"

section \<open>Notions of the statements\<close>

text \<open>A method uses a backend when it calls it, and calls nothing else.\<close>

definition uses :: "backend \<Rightarrow> 'k call list \<times> 'r \<Rightarrow> bool" where
  "uses b r \<longleftrightarrow> calls r \<noteq> [] \<and> list_all (\<lambda>c. backend_of c = b) (calls r)"

text \<open>
  The algorithm table in the spec's words: each identifier of the closed enumeration
  has a canonical native name and an output length in bytes.
\<close>

definition algorithm_table :: "string \<Rightarrow> (string \<times> nat) option" where
  "algorithm_table a =
     (if a = ''sha1'' then Some (''SHA-1'', 20)
      else if a = ''sha256'' then Some (''SHA-256'', 32)
      else if a = ''sha512'' then Some (''SHA-512'', 64)
      else None)"

subsection \<open>The primitives, and what it is for a backend to implement them\<close>

text \<open>
  What the backends compute is outside the service. The standard primitives are
  parameters: functions from bytes to bytes, named by the canonical algorithm name.
  \<open>P_cbc_decrypt\<close> is \<open>None\<close> when the padding of the decrypted blocks is invalid;
  \<open>P_cbc_blocks\<close> are the decrypted blocks with their padding still on.
\<close>

record Primitives =
  P_hash :: "string \<Rightarrow> ArrayBuffer \<Rightarrow> ArrayBuffer"
  P_hmac :: "string \<Rightarrow> ArrayBuffer \<Rightarrow> ArrayBuffer \<Rightarrow> ArrayBuffer"
  P_pbkdf2 :: "string \<Rightarrow> ArrayBuffer \<Rightarrow> ArrayBuffer \<Rightarrow> nat \<Rightarrow> nat \<Rightarrow> ArrayBuffer"
  P_cbc_encrypt :: "ArrayBuffer \<Rightarrow> ArrayBuffer \<Rightarrow> ArrayBuffer \<Rightarrow> ArrayBuffer"
  P_cbc_decrypt :: "ArrayBuffer \<Rightarrow> ArrayBuffer \<Rightarrow> ArrayBuffer \<Rightarrow> ArrayBuffer option"
  P_cbc_blocks :: "ArrayBuffer \<Rightarrow> ArrayBuffer \<Rightarrow> ArrayBuffer \<Rightarrow> ArrayBuffer"

definition standard_lengths :: "Primitives \<Rightarrow> bool" where
  "standard_lengths P \<longleftrightarrow>
     (\<forall>a n len d. algorithm_table a = Some (n, len) \<longrightarrow> length (P_hash P n d) = len) \<and>
     (\<forall>a n len k d. algorithm_table a = Some (n, len) \<longrightarrow> length (P_hmac P n k d) = len) \<and>
     (\<forall>a n len pw salt c l. algorithm_table a = Some (n, len) \<longrightarrow>
        length (P_pbkdf2 P n pw salt c l) = l)"

definition cbc_inverse :: "Primitives \<Rightarrow> bool" where
  "cbc_inverse P \<longleftrightarrow>
     (\<forall>key iv p. length iv = 16 \<and> length key \<in> {16, 24, 32} \<longrightarrow>
        P_cbc_decrypt P key iv (P_cbc_encrypt P key iv p) = Some p)"

text \<open>
  The contracts for digests, HMAC and PBKDF2 say what a call returns when it
  returns; whether it throws is left to the backend. The contracts for AES-CBC also
  say that the calls the service makes return, under a key of 16, 24 or 32 bytes and
  an IV of 16 bytes, on a ciphertext the primitive decrypts; they say nothing of a
  ciphertext it does not decrypt, where the two backends need not agree.
  The software backend works on byte strings, and its objects are read through a
  view: the algorithm and message a digest object has absorbed, the algorithm, key
  and message of an HMAC object, the key of a decipher and, once it is started, its
  IV and input. Its digests are named by the identifiers of the enumeration.
\<close>

definition forge_md_ok ::
  "Primitives \<Rightarrow> ('md \<Rightarrow> string \<times> ArrayBuffer) \<Rightarrow> ('md, 'hm, 'dc, 'bb) Forge \<Rightarrow> bool" where
  "forge_md_ok P view F \<longleftrightarrow>
     (\<forall>m. f_md_sha1_create F = Inr m \<longrightarrow> view m = (''SHA-1'', [])) \<and>
     (\<forall>m. f_md_sha256_create F = Inr m \<longrightarrow> view m = (''SHA-256'', [])) \<and>
     (\<forall>m. f_md_sha512_create F = Inr m \<longrightarrow> view m = (''SHA-512'', [])) \<and>
     (\<forall>m msg m'. f_md_update F m (fromBufferToByteString msg) ''raw'' = Inr m' \<longrightarrow>
        view m' = (fst (view m), snd (view m) @ msg)) \<and>
     (\<forall>m b. f_md_digest F m = Inr b \<longrightarrow>
        f_buffer_data F b = fromBufferToByteString (P_hash P (fst (view m)) (snd (view m))))"

definition forge_hmac_ok ::
  "Primitives \<Rightarrow> ('hm \<Rightarrow> string \<times> ArrayBuffer \<times> ArrayBuffer) \<Rightarrow> ('md, 'hm, 'dc, 'bb) Forge \<Rightarrow> bool" where
  "forge_hmac_ok P view F \<longleftrightarrow>
     (\<forall>h a n len key h'. algorithm_table a = Some (n, len) \<longrightarrow>
        f_hmac_start F h a (fromBufferToByteString key) = Inr h' \<longrightarrow> view h' = (n, key, [])) \<and>
     (\<forall>h msg h'. f_hmac_update F h (fromBufferToByteString msg) = Inr h' \<longrightarrow>
        view h' = (fst (view h), fst (snd (view h)), snd (snd (view h)) @ msg)) \<and>
     (\<forall>h b s. f_hmac_digest F h = Inr b \<longrightarrow> f_buffer_getBytes F b = Inr s \<longrightarrow>
        s = fromBufferToByteString
              (P_hmac P (fst (view h)) (fst (snd (view h))) (snd (snd (view h)))))"

definition forge_pbkdf2_ok :: "Primitives \<Rightarrow> ('md, 'hm, 'dc, 'bb) Forge \<Rightarrow> bool" where
  "forge_pbkdf2_ok P F \<longleftrightarrow>
     (\<forall>pw salt c dkLen a n len dk. 0 < c \<longrightarrow> algorithm_table a = Some (n, len) \<longrightarrow>
        f_pbkdf2 F (fromBufferToByteString pw) (fromBufferToByteString salt) c dkLen a = Inr dk \<longrightarrow>
        dk = fromBufferToByteString (P_pbkdf2 P n pw salt c dkLen))"

definition forge_utf8_ok :: "(jsstring \<Rightarrow> ArrayBuffer) \<Rightarrow> ('md, 'hm, 'dc, 'bb) Forge \<Rightarrow> bool" where
  "forge_utf8_ok utf8 F \<longleftrightarrow>
     (\<forall>s t. f_util_encodeUtf8 F s = Inr t \<longrightarrow> t = fromBufferToByteString (utf8 s))"

definition forge_decipher_ok ::
  "Primitives \<Rightarrow> ('dc \<Rightarrow> ArrayBuffer \<times> (ArrayBuffer \<times> ArrayBuffer) option) \<Rightarrow>
     ('md, 'hm, 'dc, 'bb) Forge \<Rightarrow> bool" where
  "forge_decipher_ok P view F \<longleftrightarrow>
     (\<forall>input. \<exists>b. f_util_createBuffer F (fromBufferToByteString input) = Inr b) \<and>
     (\<forall>key. length key \<in> {16, 24, 32} \<longrightarrow>
        (\<exists>d. f_cipher_createDecipher F ''AES-CBC'' (fromBufferToByteString key) = Inr d \<and>
           fst (view d) = key)) \<and>
     (\<forall>d iv. length iv = 16 \<longrightarrow>
        (\<exists>d'. f_decipher_start F d (fromBufferToByteString iv) = Inr d' \<and>
           view d' = (fst (view d), Some (iv, [])))) \<and>
     (\<forall>d key iv input more b. view d = (key, Some (iv, input)) \<longrightarrow>
        f_util_createBuffer F (fromBufferToByteString more) = Inr b \<longrightarrow>
        (\<exists>d'. f_decipher_update F d b = Inr d' \<and> view d' = (key, Some (iv, input @ more)))) \<and>
     (\<forall>d key iv input p. view d = (key, Some (iv, input)) \<longrightarrow>
        P_cbc_decrypt P key iv input = Some p \<longrightarrow>
        (\<exists>finished d'. f_decipher_finish F d = Inr (finished, d') \<and>
           f_buffer_getBytes F (f_decipher_output F d') = Inr (fromBufferToByteString p)))"

text \<open>
  The native backend works on buffers. A key handle stands for the raw key it was
  imported from, and serves the usages it was imported for.
\<close>

definition subtle_digest_ok :: "Primitives \<Rightarrow> 'k SubtleCrypto \<Rightarrow> bool" where
  "subtle_digest_ok P S \<longleftrightarrow>
     (\<forall>n d out. s_digest S (Name n) d = Inr out \<longrightarrow> out = P_hash P n d)"

definition subtle_hmac_ok :: "Primitives \<Rightarrow> 'k SubtleCrypto \<Rightarrow> bool" where
  "subtle_hmac_ok P S \<longleftrightarrow>
     (\<forall>n key ext us h d out.
        s_importKey S ''raw'' key (NameHash ''HMAC'' n) ext us = Inr h \<longrightarrow>
        s_sign S (NameHash ''HMAC'' n) h d = Inr out \<longrightarrow> out = P_hmac P n key d)"

definition subtle_pbkdf2_ok :: "Primitives \<Rightarrow> 'k SubtleCrypto \<Rightarrow> bool" where
  "subtle_pbkdf2_ok P S \<longleftrightarrow>
     (\<forall>pw ext us h salt c n bits out. 0 < c \<longrightarrow>
        s_importKey S ''raw'' pw (Name ''PBKDF2'') ext us = Inr h \<longrightarrow>
        s_deriveBits S (Pbkdf2Params ''PBKDF2'' salt c n) h bits = Inr out \<longrightarrow>
        out = P_pbkdf2 P n pw salt c (bits div 8))"

definition subtle_aes_ok :: "Primitives \<Rightarrow> 'k SubtleCrypto \<Rightarrow> bool" where
  "subtle_aes_ok P S \<longleftrightarrow>
     (\<forall>key. length key \<in> {16, 24, 32} \<longrightarrow>
        (\<exists>h. s_importKey S ''raw'' key (Name ''AES-CBC'') False [''encrypt''] = Inr h) \<and>
        (\<exists>h. s_importKey S ''raw'' key (Name ''AES-CBC'') False [''decrypt''] = Inr h)) \<and>
     (\<forall>key h iv d.
        s_importKey S ''raw'' key (Name ''AES-CBC'') False [''encrypt''] = Inr h \<longrightarrow>
        length iv = 16 \<longrightarrow>
        s_encrypt S (NameIv ''AES-CBC'' iv) h d = Inr (P_cbc_encrypt P key iv d)) \<and>
     (\<forall>key h iv d p.
        s_importKey S ''raw'' key (Name ''AES-CBC'') False [''decrypt''] = Inr h \<longrightarrow>
        length iv = 16 \<longrightarrow> P_cbc_decrypt P key iv d = Some p \<longrightarrow>
        s_decrypt S (NameIv ''AES-CBC'' iv) h d = Inr p)"

text \<open>
  That the calls a method makes to its backend return, and what the last of them
  returns: the digest buffer of a message hashed in one update, the bytes of the MAC
  of a message, the signature under a key imported for signing, the bits derived
  under a password imported for deriving.
\<close>

definition forge_hash_returns :: "('md, 'hm, 'dc, 'bb) Forge \<Rightarrow> string \<Rightarrow> jsstring \<Rightarrow> 'bb \<Rightarrow> bool" where
  "forge_hash_returns F a msg b \<longleftrightarrow>
     (\<exists>m m'.
        (if a = ''sha1'' then f_md_sha1_create F
         else if a = ''sha256'' then f_md_sha256_create F else f_md_sha512_create F) = Inr m \<and>
        f_md_update F m msg ''raw'' = Inr m' \<and> f_md_digest F m' = Inr b)"

definition forge_hmac_returns ::
  "('md, 'hm, 'dc, 'bb) Forge \<Rightarrow> string \<Rightarrow> jsstring \<Rightarrow> jsstring \<Rightarrow> jsstring \<Rightarrow> bool" where
  "forge_hmac_returns F a key msg s \<longleftrightarrow>
     (\<exists>h0 h1 h2 b.
        f_hmac_create F = Inr h0 \<and> f_hmac_start F h0 a key = Inr h1 \<and>
        f_hmac_update F h1 msg = Inr h2 \<and> f_hmac_digest F h2 = Inr b \<and>
        f_buffer_getBytes F b = Inr s)"

definition subtle_hmac_returns ::
  "'k SubtleCrypto \<Rightarrow> string \<Rightarrow> ArrayBuffer \<Rightarrow> ArrayBuffer \<Rightarrow> ArrayBuffer \<Rightarrow> bool" where
  "subtle_hmac_returns S n key d out \<longleftrightarrow>
     (\<exists>h. s_importKey S ''raw'' key (NameHash ''HMAC'' n) False [''sign''] = Inr h \<and>
        s_sign S (NameHash ''HMAC'' n) h d = Inr out)"

definition subtle_pbkdf2_returns ::
  "'k SubtleCrypto \<Rightarrow> string \<Rightarrow> ArrayBuffer \<Rightarrow> ArrayBuffer \<Rightarrow> nat \<Rightarrow> nat \<Rightarrow> ArrayBuffer \<Rightarrow> bool" where
  "subtle_pbkdf2_returns S n pw salt c bits out \<longleftrightarrow>
     (\<exists>h. s_importKey S ''raw'' pw (Name ''PBKDF2'') False [''deriveBits''] = Inr h \<and>
        s_deriveBits S (Pbkdf2Params ''PBKDF2'' salt c n) h bits = Inr out)"

section \<open>Reference backends\<close>

text \<open>
  A software and a native backend built from the same primitives, as concrete
  inputs for the service. The native one follows the Web Cryptography API where the
  service depends on it: a key needs a usage, a raw AES key 16, 24 or 32 bytes and a
  raw HMAC key at least one; a key may only be used for the usages it was imported
  with; a failed decryption rejects with an OperationError; \<^verbatim>\<open>getRandomValues\<close> throws
  a QuotaExceededError on an array of more than 65536 bytes. Of a \<^verbatim>\<open>spki\<close> or \<^verbatim>\<open>pkcs8\<close>
  key only the leading DER sequence tag is checked, and RSA-OAEP itself is not
  implemented. The software one follows node-forge: it knows more digests than the
  service names, a digest it does not know is an error that names it (names are
  matched as they are given; that \<^verbatim>\<open>hmac.start\<close> first lowers the case of the name is
  left out), and a decipher reports failed padding through the boolean of
  \<^verbatim>\<open>finish()\<close>, leaving the decrypted blocks in its output buffer.
\<close>

record CryptoKey =
  k_format :: string
  k_data :: ArrayBuffer
  k_algorithm :: AlgorithmParams
  k_extractable :: bool
  k_usages :: "string list"

record Decipher =
  d_key :: ArrayBuffer
  d_iv :: ArrayBuffer
  d_input :: ArrayBuffer
  d_output :: jsstring

definition ref_importKey ::
  "string \<Rightarrow> ArrayBuffer \<Rightarrow> AlgorithmParams \<Rightarrow> bool \<Rightarrow> string list \<Rightarrow> error + CryptoKey" where
  "ref_importKey format keyData alg extractable usages =
     (let key = \<lparr> k_format = format, k_data = keyData, k_algorithm = alg,
                  k_extractable = extractable, k_usages = usages \<rparr> in
      if usages = [] then Inl (Error ''SyntaxError'')
      else if format = ''raw'' then
        (case alg of
           Name n \<Rightarrow>
             if n = ''AES-CBC'' then
               (if length keyData \<in> {16, 24, 32} then Inr key else Inl (Error ''DataError''))
             else if n = ''PBKDF2'' then
               (if extractable then Inl (Error ''SyntaxError'') else Inr key)
             else Inl (Error ''NotSupportedError'')
         | NameHash n h \<Rightarrow>
             if n = ''HMAC'' then
               (if keyData = [] then Inl (Error ''DataError'') else Inr key)
             else Inl (Error ''NotSupportedError'')
         | _ \<Rightarrow> Inl (Error ''NotSupportedError''))
      else if format = ''spki'' \<or> format = ''pkcs8'' then
        (case keyData of
           [] \<Rightarrow> Inl (Error ''DataError'')
         | b # bs \<Rightarrow> if b = 0x30 then Inr key else Inl (Error ''DataError''))
      else Inl (Error ''NotSupportedError''))"

definition ref_deriveBits :: "Primitives \<Rightarrow> AlgorithmParams \<Rightarrow> CryptoKey \<Rightarrow> nat \<Rightarrow> error + ArrayBuffer" where
  "ref_deriveBits P alg key len =
     (case alg of
        Pbkdf2Params name salt c n \<Rightarrow>
          if name = ''PBKDF2'' \<and> ''deriveBits'' \<in> set (k_usages key) \<and> 0 < c \<and> len mod 8 = 0
          then Inr (P_pbkdf2 P n (k_data key) salt c (len div 8))
          else Inl (Error ''OperationError'')
      | _ \<Rightarrow> Inl (Error ''NotSupportedError''))"

definition ref_digest :: "Primitives \<Rightarrow> AlgorithmParams \<Rightarrow> ArrayBuffer \<Rightarrow> error + ArrayBuffer" where
  "ref_digest P alg d =
     (case alg of
        Name n \<Rightarrow>
          if n = ''SHA-1'' \<or> n = ''SHA-256'' \<or> n = ''SHA-384'' \<or> n = ''SHA-512''
          then Inr (P_hash P n d)
          else Inl (Error ''NotSupportedError'')
      | _ \<Rightarrow> Inl (Error ''NotSupportedError''))"

definition ref_sign ::
  "Primitives \<Rightarrow> AlgorithmParams \<Rightarrow> CryptoKey \<Rightarrow> ArrayBuffer \<Rightarrow> error + ArrayBuffer" where
  "ref_sign P alg key d =
     (case k_algorithm key of
        NameHash name n \<Rightarrow>
          if name = ''HMAC'' \<and> ''sign'' \<in> set (k_usages key) then Inr (P_hmac P n (k_data key) d)
          else Inl (Error ''InvalidAccessError'')
      | _ \<Rightarrow> Inl (Error ''InvalidAccessError''))"

definition ref_encrypt ::
  "Primitives \<Rightarrow> AlgorithmParams \<Rightarrow> CryptoKey \<Rightarrow> ArrayBuffer \<Rightarrow> error + ArrayBuffer" where
  "ref_encrypt P alg key d =
     (case alg of
        NameIv name iv \<Rightarrow>
          if name = ''AES-CBC'' \<and> ''encrypt'' \<in> set (k_usages key)
          then Inr (P_cbc_encrypt P (k_data key) iv d)
          else Inl (Error ''InvalidAccessError'')
      | _ \<Rightarrow> Inl (Error ''NotSupportedError''))"

definition ref_decrypt ::
  "Primitives \<Rightarrow> AlgorithmParams \<Rightarrow> CryptoKey \<Rightarrow> ArrayBuffer \<Rightarrow> error + ArrayBuffer" where
  "ref_decrypt P alg key d =
     (case alg of
        NameIv name iv \<Rightarrow>
          if name = ''AES-CBC'' \<and> ''decrypt'' \<in> set (k_usages key)
          then (case P_cbc_decrypt P (k_data key) iv d of
                  None \<Rightarrow> Inl (Error ''OperationError'')
                | Some p \<Rightarrow> Inr p)
          else Inl (Error ''InvalidAccessError'')
      | _ \<Rightarrow> Inl (Error ''NotSupportedError''))"

definition ref_subtle :: "Primitives \<Rightarrow> CryptoKey SubtleCrypto" where
  "ref_subtle P =
     \<lparr> s_importKey = ref_importKey,
       s_deriveBits = ref_deriveBits P,
       s_digest = ref_digest P,
       s_sign = ref_sign P,
       s_encrypt = ref_encrypt P,
       s_decrypt = ref_decrypt P \<rparr>"

definition ref_crypto :: "Primitives \<Rightarrow> (nat \<Rightarrow> byte) \<Rightarrow> CryptoKey Crypto" where
  "ref_crypto P rnd =
     \<lparr> c_subtle = ref_subtle P,
       c_getRandomValues =
         (\<lambda>n. if 65536 < n then Inl (Error ''QuotaExceededError'') else Inr rnd) \<rparr>"

text \<open>The digests node-forge knows, by the name it knows them under.\<close>

definition forge_digests :: "string \<Rightarrow> string option" where
  "forge_digests md =
     (if md = ''md5'' then Some ''MD5''
      else if md = ''sha1'' then Some ''SHA-1''
      else if md = ''sha256'' then Some ''SHA-256''
      else if md = ''sha384'' then Some ''SHA-384''
      else if md = ''sha512'' then Some ''SHA-512''
      else if md = ''sha512/224'' then Some ''SHA-512/224''
      else if md = ''sha512/256'' then Some ''SHA-512/256''
      else None)"

definition ref_pbkdf2 ::
  "Primitives \<Rightarrow> jsstring \<Rightarrow> jsstring \<Rightarrow> nat \<Rightarrow> nat \<Rightarrow> string \<Rightarrow> error + jsstring" where
  "ref_pbkdf2 P p s c dkLen md =
     (case forge_digests md of
        None \<Rightarrow> Inl (Error (''Unknown hash algorithm: '' @ md))
      | Some n \<Rightarrow>
          Inr (fromBufferToByteString
                 (P_pbkdf2 P n (fromByteStringToArray p) (fromByteStringToArray s) c dkLen)))"

definition ref_hmac_start ::
  "string \<times> ArrayBuffer \<times> ArrayBuffer \<Rightarrow> string \<Rightarrow> jsstring \<Rightarrow>
     error + string \<times> ArrayBuffer \<times> ArrayBuffer" where
  "ref_hmac_start h md key =
     (case forge_digests md of
        None \<Rightarrow> Inl (Error (''Unknown hash algorithm '' @ [CHR 0x22] @ md @ [CHR 0x22]))
      | Some n \<Rightarrow> Inr (n, fromByteStringToArray key, []))"

definition ref_decipher_finish :: "Primitives \<Rightarrow> Decipher \<Rightarrow> error + (bool \<times> Decipher)" where
  "ref_decipher_finish P d =
     (case P_cbc_decrypt P (d_key d) (d_iv d) (d_input d) of
        None \<Rightarrow>
          Inr (False,
               d\<lparr>d_output := fromBufferToByteString (P_cbc_blocks P (d_key d) (d_iv d) (d_input d))\<rparr>)
      | Some p \<Rightarrow> Inr (True, d\<lparr>d_output := fromBufferToByteString p\<rparr>))"

definition ref_forge ::
  "Primitives \<Rightarrow> (jsstring \<Rightarrow> ArrayBuffer) \<Rightarrow>
     (string \<times> ArrayBuffer, string \<times> ArrayBuffer \<times> ArrayBuffer, Decipher, jsstring) Forge" where
  "ref_forge P utf8 =
     \<lparr> f_pbkdf2 = ref_pbkdf2 P,
       f_md_sha1_create = Inr (''SHA-1'', []),
       f_md_sha256_create = Inr (''SHA-256'', []),
       f_md_sha512_create = Inr (''SHA-512'', []),
       f_md_update = (\<lambda>m msg enc. Inr (fst m, snd m @ fromByteStringToArray msg)),
       f_md_digest = (\<lambda>m. Inr (fromBufferToByteString (P_hash P (fst m) (snd m)))),
       f_hmac_create = Inr ([], [], []),
       f_hmac_start = ref_hmac_start,
       f_hmac_update =
         (\<lambda>h msg. Inr (fst h, fst (snd h), snd (snd h) @ fromByteStringToArray msg)),
       f_hmac_digest =
         (\<lambda>h. Inr (fromBufferToByteString (P_hmac P (fst h) (fst (snd h)) (snd (snd h))))),
       f_util_encodeUtf8 = (\<lambda>str. Inr (fromBufferToByteString (utf8 str))),
       f_util_createBuffer = (\<lambda>b. Inr b),
       f_cipher_createDecipher =
         (\<lambda>alg key.
            if alg = ''AES-CBC''
            then Inr \<lparr> d_key = fromByteStringToArray key, d_iv = [], d_input = [], d_output = [] \<rparr>
            else Inl (Error ''Unsupported algorithm'')),
       f_decipher_start =
         (\<lambda>d iv. Inr (d\<lparr>d_iv := fromByteStringToArray iv, d_input := [], d_output := []\<rparr>)),
       f_decipher_update = (\<lambda>d b. Inr (d\<lparr>d_input := d_input d @ fromByteStringToArray b\<rparr>)),
       f_decipher_finish = ref_decipher_finish P,
       f_decipher_output = d_output,
       f_buffer_data = (\<lambda>b. b),
       f_buffer_getBytes = (\<lambda>b. Inr b) \<rparr>"

definition decipher_view :: "Decipher \<Rightarrow> ArrayBuffer \<times> (ArrayBuffer \<times> ArrayBuffer) option" where
  "decipher_view d = (d_key d, if d_iv d = [] then None else Some (d_iv d, d_input d))"

subsection \<open>Example primitives\<close>

text \<open>
  Stand-ins with the shape of the real primitives: digests of the standard lengths,
  and a cipher that pads to a multiple of 16 bytes as PKCS#7 does, masks each byte
  with the key and IV, and on decryption rejects a length that is not a multiple of
  16 or a last byte that is not a padding count.
\<close>

definition pkcs7_pad :: "ArrayBuffer \<Rightarrow> ArrayBuffer" where
  "pkcs7_pad p = (let n = 16 - length p mod 16 in p @ replicate n (of_nat n))"

definition pkcs7_unpad :: "ArrayBuffer \<Rightarrow> ArrayBuffer option" where
  "pkcs7_unpad c =
     (if c = [] \<or> length c mod 16 \<noteq> 0 then None
      else (let n = unat (last c) in
            if n = 0 \<or> 16 < n then None else Some (take (length c - n) c)))"

definition ex_length :: "string \<Rightarrow> nat" where
  "ex_length n =
     (if n = ''MD5'' then 16
      else if n = ''SHA-1'' then 20
      else if n = ''SHA-256'' then 32
      else if n = ''SHA-384'' then 48
      else if n = ''SHA-512'' then 64
      else if n = ''SHA-512/224'' then 28
      else if n = ''SHA-512/256'' then 32
      else 0)"

definition ex_mask :: "ArrayBuffer \<Rightarrow> ArrayBuffer \<Rightarrow> byte" where
  "ex_mask key iv = sum_list key + sum_list iv"

definition ex_prims :: Primitives where
  "ex_prims =
     \<lparr> P_hash = (\<lambda>n d. replicate (ex_length n) (sum_list d)),
       P_hmac = (\<lambda>n k d. replicate (ex_length n) (sum_list k + sum_list d)),
       P_pbkdf2 = (\<lambda>n pw salt c l. replicate l (sum_list pw + sum_list salt + of_nat c)),
       P_cbc_encrypt = (\<lambda>key iv p. map (\<lambda>b. b + ex_mask key iv) (pkcs7_pad p)),
       P_cbc_decrypt = (\<lambda>key iv c. pkcs7_unpad (map (\<lambda>b. b - ex_mask key iv) c)),
       P_cbc_blocks = (\<lambda>key iv c. map (\<lambda>b. b - ex_mask key iv) c) \<rparr>"

text \<open>On text of code units below 128, UTF-8 is one byte per code unit.\<close>

definition ex_utf8 :: "jsstring \<Rightarrow> ArrayBuffer" where
  "ex_utf8 s = map ucast s"

definition ex_imports ::
  "(string \<times> ArrayBuffer, string \<times> ArrayBuffer \<times> ArrayBuffer, Decipher, jsstring) Imports" where
  "ex_imports = \<lparr> forge = ref_forge ex_prims ex_utf8, Utils_fromUtf8ToArray = ex_utf8 \<rparr>"

definition ex_window :: "CryptoKey Window" where
  "ex_window = \<lparr> w_crypto = ref_crypto ex_prims (\<lambda>i. of_nat i) \<rparr>"

definition ex_edge :: "CryptoKey WebCryptoFunctionService" where
  "ex_edge = constructor ex_window \<lparr> p_isEdge = (\<lambda>u. True) \<rparr>"

definition ex_other :: "CryptoKey WebCryptoFunctionService" where
  "ex_other = constructor ex_window \<lparr> p_isEdge = (\<lambda>u. False) \<rparr>"

text \<open>
  A key, an IV, the encryption of the bytes 1, 2, 3 under them, and another key.
\<close>

definition ex_key :: ArrayBuffer where
  "ex_key = [1, 1, 1, 1, 1, 1, 1, 1, 1, 1, 1, 1, 1, 1, 1, 1]"

definition ex_iv :: ArrayBuffer where
  "ex_iv = [0, 0, 0, 0, 0, 0, 0, 0, 0, 0, 0, 0, 0, 0, 0, 0]"

definition ex_ciphertext :: ArrayBuffer where
  "ex_ciphertext = [17, 18, 19, 29, 29, 29, 29, 29, 29, 29, 29, 29, 29, 29, 29, 29]"

definition ex_wrong_key :: ArrayBuffer where
  "ex_wrong_key = [2, 2, 2, 2, 2, 2, 2, 2, 2, 2, 2, 2, 2, 2, 2, 2]"

section \<open>Reasoning about computations\<close>

lemmas forge_defs = forge_pbkdf2_def forge_md_sha1_create_def forge_md_sha256_create_def
  forge_md_sha512_create_def forge_md_update_def forge_md_digest_def forge_hmac_create_def
  forge_hmac_start_def forge_hmac_update_def forge_hmac_digest_def forge_util_encodeUtf8_def
  forge_util_createBuffer_def forge_cipher_createDecipher_def forge_decipher_start_def
  forge_decipher_update_def forge_decipher_finish_def forge_buffer_getBytes_def

lemmas subtle_defs = subtle_importKey_def subtle_deriveBits_def subtle_digest_def subtle_sign_def
  subtle_encrypt_def subtle_decrypt_def crypto_getRandomValues_def

lemmas js_defs = js_return_def js_call_def js_bind_def async_def

lemmas ex_defs = ex_imports_def ex_window_def ex_edge_def ex_other_def constructor_def
  ref_forge_def ref_subtle_def ref_crypto_def ex_prims_def ex_utf8_def

lemmas ref_defs = ref_importKey_def ref_deriveBits_def ref_digest_def ref_sign_def ref_encrypt_def
  ref_decrypt_def ref_pbkdf2_def ref_hmac_start_def ref_decipher_finish_def forge_digests_def

lemma js_bind_return [simp]: "js_bind (js_return x) f = f x"
  by (simp add: js_bind_def js_return_def split: prod.splits)

lemma calls_async [simp]: "calls (async m) = calls m"
  by (simp add: async_def split: prod.splits sum.splits)

lemma calls_js_return [simp]: "calls (js_return x) = []"
  by (simp add: js_return_def)

lemma calls_js_call [simp]: "calls (js_call c r) = [c]"
  by (simp add: js_call_def)

lemma outcome_js_call [simp]: "outcome (js_call c r) = r"
  by (simp add: js_call_def)

lemma outcome_js_return [simp]: "outcome (js_return x) = Inr x"
  by (simp add: js_return_def)

lemma calls_js_bind:
  "calls (js_bind m f) = (case outcome m of Inl e \<Rightarrow> calls m | Inr x \<Rightarrow> calls m @ calls (f x))"
  by (simp add: js_bind_def split: prod.splits sum.splits)

lemma outcome_js_bind:
  "outcome (js_bind m f) = (case outcome m of Inl e \<Rightarrow> Inl e | Inr x \<Rightarrow> outcome (f x))"
  by (simp add: js_bind_def split: prod.splits sum.splits)

lemma outcome_async:
  "outcome (async m) = (case outcome m of Inl e \<Rightarrow> Rejected e | Inr x \<Rightarrow> Resolved x)"
  by (simp add: async_def split: prod.splits sum.splits)

lemma outcome_async_Resolved [simp]:
  "outcome (async m) = Resolved x \<longleftrightarrow> outcome m = Inr x"
  by (simp add: outcome_async split: sum.splits)

lemma outcome_js_bind_Inr [simp]:
  "outcome (js_bind m f) = Inr y \<longleftrightarrow> (\<exists>x. outcome m = Inr x \<and> outcome (f x) = Inr y)"
  by (simp add: outcome_js_bind split: sum.splits)

lemma uses_async [simp]: "uses b (async m) = uses b m"
  by (simp add: uses_def)

lemma uses_bind:
  assumes "uses b m"
    and "\<And>x. outcome m = Inr x \<Longrightarrow> list_all (\<lambda>c. backend_of c = b) (calls (f x))"
  shows "uses b (js_bind m f)"
  using assms by (auto simp: uses_def calls_js_bind split: sum.splits)

lemma all_bind:
  assumes "list_all Q (calls m)" and "\<And>x. outcome m = Inr x \<Longrightarrow> list_all Q (calls (f x))"
  shows "list_all Q (calls (js_bind m f))"
  using assms by (auto simp: calls_js_bind split: sum.splits)

lemma uses_bind_either:
  assumes "(\<exists>x. m = js_return x) \<or> uses b m" and "\<And>x. uses b (f x)"
  shows "uses b (js_bind m f)"
  using assms by (auto simp: uses_def calls_js_bind split: sum.splits)

lemma uses_unique: "uses b r \<Longrightarrow> uses b' r \<Longrightarrow> b = b'"
  by (cases "calls r") (auto simp: uses_def)

lemma uses_iff:
  assumes "uses (if e then Software else Native) r"
  shows "(uses Software r \<longleftrightarrow> e) \<and> (uses Native r \<longleftrightarrow> \<not> e)"
  using assms uses_unique [of Software r Native] by (cases e) auto

lemma import_then_uses:
  assumes "\<And>h. list_all (\<lambda>c. backend_of c = Native) (calls (f h))"
  shows "uses Native (js_bind (subtle_importKey S fmt k alg ext us) f)"
  using assms by (intro uses_bind) (simp_all add: uses_def subtle_defs)

subsection \<open>The byte bridge\<close>

lemma fromByteString_toByteString: "fromByteStringToArray (fromBufferToByteString b) = b"
proof -
  have "(ucast :: 16 word \<Rightarrow> byte) (ucast x) = x" for x :: byte
    by (simp add: ucast_down_ucast_id is_down)
  then show ?thesis
    by (simp add: fromByteStringToArray_def fromBufferToByteString_def map_idI)
qed

lemma unat_ucast_byte: "unat (ucast (x :: byte) :: 16 word) = unat x"
proof -
  have "unat x < 2 ^ 8"
    using unsigned_less [of x] by simp
  then have "unat x < 2 ^ 16"
    by simp
  then show ?thesis
    by (simp add: unsigned_ucast_eq take_bit_nat_eq_self)
qed

lemma toByteString_software: "list_all (\<lambda>c. backend_of c = Software) (calls (toByteString im v))"
  by (cases v) (simp_all add: toByteString_def forge_defs)

lemma toByteString_cases:
  "(\<exists>x. toByteString im v = (js_return x :: ('k, jsstring) js))
   \<or> uses Software (toByteString im v :: ('k, jsstring) js)"
  by (cases v) (auto simp: toByteString_def forge_defs uses_def)

lemma toByteString_bridge:
  fixes im :: "('md, 'hm, 'dc, 'bb) Imports"
  assumes "forge_utf8_ok (Utils_fromUtf8ToArray im) (forge im)"
    and "outcome (toByteString im v :: ('k, jsstring) js) = Inr vb"
  shows "vb = fromBufferToByteString (toBuf im v)"
  using assms
  by (cases v) (auto simp: toByteString_def toBuf_def forge_utf8_ok_def forge_defs)

lemma table_name:
  assumes "algorithm_table a = Some (n, len)"
  shows "toWebCryptoAlgorithm a = n"
    and "a = ''sha1'' \<or> a = ''sha256'' \<or> a = ''sha512''"
  using assms
  by (auto simp: algorithm_table_def toWebCryptoAlgorithm_def split: if_splits)

lemma ex_flags: "this_isEdge ex_edge" "\<not> this_isEdge ex_other"
  by (simp_all add: ex_edge_def ex_other_def constructor_def)

section \<open>Which backend a method uses\<close>

lemma md_create_uses:
  "uses Software (if a = ''sha1'' then forge_md_sha1_create F
     else if a = ''sha256'' then forge_md_sha256_create F else forge_md_sha512_create F)"
  by (simp add: uses_def forge_defs)

lemma hash_software:
  fixes im :: "('md, 'hm, 'dc, 'bb) Imports" and this :: "'k WebCryptoFunctionService"
  assumes "this_isEdge this"
  shows "uses Software (hash im this v a)"
proof -
  have "uses Software (js_bind
          (if a = ''sha1'' then forge_md_sha1_create (forge im)
           else if a = ''sha256'' then forge_md_sha256_create (forge im)
           else forge_md_sha512_create (forge im)) f)"
    if "\<And>x. list_all (\<lambda>c. backend_of c = Software) (calls (f x))"
    for f :: "'md \<Rightarrow> ('k, ArrayBuffer) js"
    using that by (intro uses_bind md_create_uses)
  moreover have "list_all (\<lambda>c. backend_of c = Software) (calls (
        js_bind (toByteString im v) (\<lambda>valueBytes.
        js_bind (forge_md_update (forge im) md valueBytes ''raw'') (\<lambda>md.
        js_bind (forge_md_digest (forge im) md) (\<lambda>d.
        js_return (fromByteStringToArray (f_buffer_data (forge im) d))))) :: ('k, ArrayBuffer) js))"
    for md
    by (intro all_bind toByteString_software) (simp_all add: forge_defs)
  ultimately show ?thesis
    using assms unfolding hash_def by (simp split del: if_split)
qed

lemma hash_native: "\<not> this_isEdge this \<Longrightarrow> uses Native (hash im this v a)"
  unfolding hash_def by (simp add: uses_def subtle_defs)

lemma hmac_software:
  fixes im :: "('md, 'hm, 'dc, 'bb) Imports" and this :: "'k WebCryptoFunctionService"
  assumes "this_isEdge this"
  shows "uses Software (hmac im this v k a)"
proof -
  have "uses Software (js_bind (forge_hmac_create (forge im)) (\<lambda>hmac.
        js_bind (forge_hmac_start (forge im) hmac a kb) (\<lambda>hmac.
        js_bind (forge_hmac_update (forge im) hmac vb) (\<lambda>hmac.
        js_bind (forge_hmac_digest (forge im) hmac) (\<lambda>d.
        js_bind (forge_buffer_getBytes (forge im) d) (\<lambda>bytes.
        js_return (fromByteStringToArray bytes)))))) :: ('k, ArrayBuffer) js)" for kb vb
    by (intro uses_bind all_bind) (simp_all add: uses_def forge_defs)
  then show ?thesis
    using assms unfolding hmac_def by (simp add: toByteString_def)
qed

lemma hmac_native: "\<not> this_isEdge this \<Longrightarrow> uses Native (hmac im this v k a)"
  unfolding hmac_def Let_def
  by (simp, rule import_then_uses) (simp add: subtle_defs)

lemma pbkdf2_software:
  fixes im :: "('md, 'hm, 'dc, 'bb) Imports" and this :: "'k WebCryptoFunctionService"
  assumes "this_isEdge this"
  shows "uses Software (pbkdf2 im this p s a n)"
proof -
  have last: "uses Software (js_bind (forge_pbkdf2 (forge im) pb sb n l a)
           (\<lambda>derivedKeyBytes. js_return (fromByteStringToArray derivedKeyBytes))
             :: ('k, ArrayBuffer) js)"
    for pb sb l
    by (intro uses_bind) (simp_all add: uses_def forge_defs)
  have "uses Software (
         js_bind (toByteString im p) (\<lambda>passwordBytes.
         js_bind (toByteString im s) (\<lambda>saltBytes.
         js_bind (forge_pbkdf2 (forge im) passwordBytes saltBytes n l a)
           (\<lambda>derivedKeyBytes.
         js_return (fromByteStringToArray derivedKeyBytes)))) :: ('k, ArrayBuffer) js)" for l
    by (intro uses_bind_either [OF toByteString_cases]) (rule last)
  then show ?thesis
    using assms unfolding pbkdf2_def Let_def by (simp split del: if_split)
qed

lemma pbkdf2_native: "\<not> this_isEdge this \<Longrightarrow> uses Native (pbkdf2 im this p s a n)"
  unfolding pbkdf2_def Let_def
  by (simp split del: if_split, rule import_then_uses) (simp add: subtle_defs)

lemma routed:
  fixes im :: "('md, 'hm, 'dc, 'bb) Imports" and this :: "'k WebCryptoFunctionService"
  shows "uses (if this_isEdge this then Software else Native) (pbkdf2 im this pw salt a n)"
    and "uses (if this_isEdge this then Software else Native) (hash im this v a)"
    and "uses (if this_isEdge this then Software else Native) (hmac im this d key a)"
  by (simp_all add: pbkdf2_software pbkdf2_native hash_software hash_native hmac_software
      hmac_native)

lemma decrypt_small_software:
  fixes im :: "('md, 'hm, 'dc, 'bb) Imports" and this :: "'k WebCryptoFunctionService"
  shows "uses Software (aesDecryptSmall im this d iv key)"
proof -
  have "uses Software (js_bind (forge_util_createBuffer (forge im) db) (\<lambda>dataBuffer.
      js_bind (forge_cipher_createDecipher (forge im) ''AES-CBC'' kb) (\<lambda>decipher.
      js_bind (forge_decipher_start (forge im) decipher ib) (\<lambda>decipher.
      js_bind (forge_decipher_update (forge im) decipher dataBuffer) (\<lambda>decipher.
      js_bind (forge_decipher_finish (forge im) decipher) (\<lambda>(finished, decipher).
      js_bind (forge_buffer_getBytes (forge im) (f_decipher_output (forge im) decipher)) (\<lambda>bytes.
      js_return (fromByteStringToArray bytes))))))) :: ('k, ArrayBuffer) js)" for db kb ib
    by (intro uses_bind all_bind)
      (simp_all add: uses_def forge_defs calls_js_bind split: prod.splits sum.splits)
  then show ?thesis
    unfolding aesDecryptSmall_def by (simp add: toByteString_def)
qed

text \<open>
  C2. The flag is read from the platform service once, when the service is
  constructed. Whatever the arguments, \<^verbatim>\<open>pbkdf2\<close>, \<^verbatim>\<open>hash\<close> and \<^verbatim>\<open>hmac\<close> of the
  constructed service use the software backend exactly when the platform service
  answered that it is Edge, and the native backend exactly when it answered that it
  is not; a platform service that changes afterwards changes nothing.
\<close>

theorem capability_routing:
  fixes im :: "('md, 'hm, 'dc, 'bb) Imports" and win :: "'k Window"
  shows "(uses Software (pbkdf2 im (constructor win pus) pw salt a n) \<longleftrightarrow> p_isEdge pus ()) \<and>
         (uses Native (pbkdf2 im (constructor win pus) pw salt a n) \<longleftrightarrow> \<not> p_isEdge pus ()) \<and>
         (uses Software (hash im (constructor win pus) v a) \<longleftrightarrow> p_isEdge pus ()) \<and>
         (uses Native (hash im (constructor win pus) v a) \<longleftrightarrow> \<not> p_isEdge pus ()) \<and>
         (uses Software (hmac im (constructor win pus) d key a) \<longleftrightarrow> p_isEdge pus ()) \<and>
         (uses Native (hmac im (constructor win pus) d key a) \<longleftrightarrow> \<not> p_isEdge pus ()) \<and>
         pbkdf2 im ((constructor win pus)\<lparr>this_platformUtilsService := q\<rparr>) pw salt a n
           = pbkdf2 im (constructor win pus) pw salt a n \<and>
         hash im ((constructor win pus)\<lparr>this_platformUtilsService := q\<rparr>) v a
           = hash im (constructor win pus) v a \<and>
         hmac im ((constructor win pus)\<lparr>this_platformUtilsService := q\<rparr>) d key a
           = hmac im (constructor win pus) d key a"
proof -
  have e: "this_isEdge (constructor win pus) = p_isEdge pus ()"
    by (simp add: constructor_def)
  note r = routed [where this = "constructor win pus" and im = im, unfolded e]
  show ?thesis
    using uses_iff [OF r(1)] uses_iff [OF r(2)] uses_iff [OF r(3)]
    by (simp add: pbkdf2_def hash_def hmac_def)
qed

theorem capability_routing_witness:
  "uses Software (hash ex_imports ex_edge (Buf [1, 2, 3]) ''sha256'') \<and>
   uses Native (hash ex_imports ex_other (Buf [1, 2, 3]) ''sha256'')"
  using capability_routing [of ex_imports ex_window "\<lparr> p_isEdge = (\<lambda>u. True) \<rparr>"]
    capability_routing [of ex_imports ex_window "\<lparr> p_isEdge = (\<lambda>u. False) \<rparr>"]
  by (simp add: ex_edge_def ex_other_def)

text \<open>
  C3. Whatever the arguments and whatever the flag, \<^verbatim>\<open>aesDecryptSmall\<close> uses the
  software backend, and \<^verbatim>\<open>aesEncrypt\<close>, \<^verbatim>\<open>aesDecryptLarge\<close>, \<^verbatim>\<open>rsaEncrypt\<close> and
  \<^verbatim>\<open>rsaDecrypt\<close> use the native backend; setting the flag to any value changes neither
  their calls nor their results.
\<close>

theorem fixed_routing:
  fixes im :: "('md, 'hm, 'dc, 'bb) Imports" and this :: "'k WebCryptoFunctionService"
  shows "uses Software (aesDecryptSmall im this d iv key) \<and>
         uses Native (aesEncrypt this d iv key) \<and>
         uses Native (aesDecryptLarge this d iv key) \<and>
         uses Native (rsaEncrypt this d pub a) \<and>
         uses Native (rsaDecrypt this d priv a) \<and>
         aesDecryptSmall im (this\<lparr>this_isEdge := e\<rparr>) d iv key = aesDecryptSmall im this d iv key \<and>
         aesEncrypt (this\<lparr>this_isEdge := e\<rparr>) d iv key = aesEncrypt this d iv key \<and>
         aesDecryptLarge (this\<lparr>this_isEdge := e\<rparr>) d iv key = aesDecryptLarge this d iv key \<and>
         rsaEncrypt (this\<lparr>this_isEdge := e\<rparr>) d pub a = rsaEncrypt this d pub a \<and>
         rsaDecrypt (this\<lparr>this_isEdge := e\<rparr>) d priv a = rsaDecrypt this d priv a"
proof -
  have "uses Native (aesEncrypt this d iv key)" "uses Native (aesDecryptLarge this d iv key)"
    "uses Native (rsaEncrypt this d pub a)" "uses Native (rsaDecrypt this d priv a)"
    unfolding aesEncrypt_def aesDecryptLarge_def rsaEncrypt_def rsaDecrypt_def Let_def uses_async
    by (rule import_then_uses, simp add: subtle_defs)+
  then show ?thesis
    using decrypt_small_software [of im this d iv key]
    by (simp add: aesDecryptSmall_def aesEncrypt_def aesDecryptLarge_def rsaEncrypt_def
        rsaDecrypt_def)
qed

theorem fixed_routing_witness:
  "uses Software (aesDecryptSmall ex_imports ex_other ex_ciphertext ex_iv ex_key) \<and>
   uses Native (aesEncrypt ex_edge [1, 2, 3] ex_iv ex_key) \<and>
   uses Native (aesDecryptLarge ex_edge ex_ciphertext ex_iv ex_key)"
  using fixed_routing [where im = ex_imports and this = ex_other and d = ex_ciphertext
      and iv = ex_iv and key = ex_key]
    fixed_routing [where im = ex_imports and this = ex_edge and d = "[1, 2, 3]"
      and iv = ex_iv and key = ex_key]
    fixed_routing [where im = ex_imports and this = ex_edge and d = ex_ciphertext
      and iv = ex_iv and key = ex_key]
  by blast

section \<open>Errors and arguments\<close>

lemmas ex_bytes = ex_key_def ex_iv_def ex_ciphertext_def ex_wrong_key_def
  fromBufferToByteString_def fromByteStringToArray_def

lemma ex_lengths: "length ex_key = 16" "length ex_iv = 16" "length ex_wrong_key = 16"
  by (simp_all add: ex_key_def ex_iv_def ex_wrong_key_def)

lemma ex_wrong_key_padding:
  "P_cbc_decrypt ex_prims ex_wrong_key ex_iv ex_ciphertext = None"
  "P_cbc_blocks ex_prims ex_wrong_key ex_iv ex_ciphertext =
     [241, 242, 243, 253, 253, 253, 253, 253, 253, 253, 253, 253, 253, 253, 253, 253]"
  by (simp_all add: ex_prims_def ex_mask_def ex_bytes pkcs7_unpad_def)

text \<open>
  C1. The claim is that a padding failure met while decrypting makes
  \<^verbatim>\<open>aesDecryptSmall\<close> reject. The software decipher reports that failure through the
  boolean \<^verbatim>\<open>finish()\<close> returns, and the method does not read it: whenever the calls up
  to \<^verbatim>\<open>finish()\<close> succeed and \<^verbatim>\<open>finish()\<close> returns false, the method resolves, with
  whatever bytes the output buffer then holds.
\<close>

theorem decrypt_small_discards_finish:
  fixes im :: "('md, 'hm, 'dc, 'bb) Imports" and this :: "'k WebCryptoFunctionService"
  assumes "f_util_createBuffer (forge im) (fromBufferToByteString d) = Inr buf"
    and "f_cipher_createDecipher (forge im) ''AES-CBC'' (fromBufferToByteString key) = Inr d0"
    and "f_decipher_start (forge im) d0 (fromBufferToByteString iv) = Inr d1"
    and "f_decipher_update (forge im) d1 buf = Inr d2"
    and "f_decipher_finish (forge im) d2 = Inr (False, d3)"
    and "f_buffer_getBytes (forge im) (f_decipher_output (forge im) d3) = Inr out"
  shows "outcome (aesDecryptSmall im this d iv key) = Resolved (fromByteStringToArray out)"
  using assms
  by (simp add: aesDecryptSmall_def toByteString_def outcome_async outcome_js_bind forge_defs)

text \<open>
  With the reference backends, on a ciphertext decrypted under the wrong key: the
  decipher reports the failure, \<^verbatim>\<open>aesDecryptSmall\<close> resolves with the decrypted blocks,
  and \<^verbatim>\<open>aesDecryptLarge\<close> rejects.
\<close>

theorem decrypt_small_discards_finish_witness:
  "f_decipher_finish (forge ex_imports)
     \<lparr> d_key = ex_wrong_key, d_iv = ex_iv, d_input = ex_ciphertext, d_output = [] \<rparr> =
     Inr (False, \<lparr> d_key = ex_wrong_key, d_iv = ex_iv, d_input = ex_ciphertext,
                  d_output = [241, 242, 243, 253, 253, 253, 253, 253, 253, 253, 253, 253, 253, 253,
                              253, 253] \<rparr>) \<and>
   outcome (aesDecryptSmall ex_imports ex_other ex_ciphertext ex_iv ex_wrong_key) =
     Resolved [241, 242, 243, 253, 253, 253, 253, 253, 253, 253, 253, 253, 253, 253, 253, 253] \<and>
   outcome (aesDecryptLarge ex_other ex_ciphertext ex_iv ex_wrong_key) =
     Rejected (Error ''OperationError'')"
proof -
  let ?F = "forge ex_imports"
  let ?d0 = "\<lparr> d_key = ex_wrong_key, d_iv = [], d_input = [], d_output = [] \<rparr>"
  let ?d1 = "\<lparr> d_key = ex_wrong_key, d_iv = ex_iv, d_input = [], d_output = [] \<rparr>"
  let ?d2 = "\<lparr> d_key = ex_wrong_key, d_iv = ex_iv, d_input = ex_ciphertext, d_output = [] \<rparr>"
  let ?out = "[241, 242, 243, 253, 253, 253, 253, 253, 253, 253, 253, 253, 253, 253, 253, 253]
                :: jsstring"
  let ?d3 = "\<lparr> d_key = ex_wrong_key, d_iv = ex_iv, d_input = ex_ciphertext, d_output = ?out \<rparr>"
  have F: "?F = ref_forge ex_prims ex_utf8"
    by (simp add: ex_imports_def)
  have 1: "f_util_createBuffer ?F (fromBufferToByteString ex_ciphertext)
             = Inr (fromBufferToByteString ex_ciphertext)"
    by (simp add: F ref_forge_def)
  have 2: "f_cipher_createDecipher ?F ''AES-CBC'' (fromBufferToByteString ex_wrong_key) = Inr ?d0"
    by (simp add: F ref_forge_def fromByteString_toByteString)
  have 3: "f_decipher_start ?F ?d0 (fromBufferToByteString ex_iv) = Inr ?d1"
    by (simp add: F ref_forge_def fromByteString_toByteString)
  have 4: "f_decipher_update ?F ?d1 (fromBufferToByteString ex_ciphertext) = Inr ?d2"
    by (simp add: F ref_forge_def fromByteString_toByteString)
  have 5: "f_decipher_finish ?F ?d2 = Inr (False, ?d3)"
    by (simp add: F ref_forge_def ref_decipher_finish_def ex_wrong_key_padding
        fromBufferToByteString_def)
  have 6: "f_buffer_getBytes ?F (f_decipher_output ?F ?d3) = Inr ?out"
    by (simp add: F ref_forge_def)
  have 7: "outcome (aesDecryptLarge ex_other ex_ciphertext ex_iv ex_wrong_key) =
     Rejected (Error ''OperationError'')"
    by (simp add: aesDecryptLarge_def subtle_defs outcome_async outcome_js_bind ex_other_def
        ex_window_def constructor_def ref_crypto_def ref_subtle_def ref_importKey_def
        ref_decrypt_def ex_wrong_key_padding ex_lengths)
  show ?thesis
    using 5 7 decrypt_small_discards_finish [OF 1 2 3 4 5 6, of ex_other]
    by (simp add: fromByteStringToArray_def)
qed

text \<open>
  C5. For every buffer \<open>b\<close>, \<^verbatim>\<open>toByteString\<close> of \<open>b\<close> calls no backend function (so no
  UTF-8 encoder), and returns the byte string that holds each byte of \<open>b\<close> as one
  code unit of the same value; converting that byte string back gives \<open>b\<close>.
\<close>

theorem byte_bridge_roundtrip:
  fixes im :: "('md, 'hm, 'dc, 'bb) Imports"
  shows "calls (toByteString im (Buf b) :: ('k, jsstring) js) = [] \<and>
         outcome (toByteString im (Buf b) :: ('k, jsstring) js) = Inr (fromBufferToByteString b) \<and>
         fromByteStringToArray (fromBufferToByteString b) = b \<and>
         length (fromBufferToByteString b) = length b \<and>
         map unat (fromBufferToByteString b) = map unat b"
  by (simp add: toByteString_def fromByteString_toByteString)
    (simp add: fromBufferToByteString_def unat_ucast_byte)

text \<open>
  C8, as amended. For every \<open>n \<ge> 0\<close> on which the platform's \<^verbatim>\<open>getRandomValues\<close> does
  not throw, \<^verbatim>\<open>randomBytes\<close> calls it once, on an array of \<open>n\<close> bytes, and returns a
  promise resolved to a buffer of exactly \<open>n\<close> bytes.
\<close>

theorem randomBytes_length:
  fixes this :: "'k WebCryptoFunctionService"
  assumes "0 \<le> n" and "c_getRandomValues (this_crypto this) (nat n) = Inr rnd"
  shows "randomBytes this n =
           ([Crypto_getRandomValues (nat n)], Inr (Resolved (map rnd [0..<nat n]))) \<and>
         int (length (map rnd [0..<nat n])) = n"
  using assms by (simp add: randomBytes_def subtle_defs js_defs)

theorem randomBytes_length_witness:
  "(0::int) \<le> 3 \<and>
   c_getRandomValues (this_crypto ex_edge) (nat 3) = Inr (\<lambda>i. of_nat i) \<and>
   randomBytes ex_edge 3 = ([Crypto_getRandomValues 3], Inr (Resolved [0, 1, 2]))"
proof -
  have 1: "(0::int) \<le> 3"
    by simp
  have 2: "c_getRandomValues (this_crypto ex_edge) (nat 3) = Inr (\<lambda>i. of_nat i)"
    by (simp add: ex_defs)
  show ?thesis
    using 1 2 randomBytes_length [OF 1 2] by (simp add: upt_rec)
qed

text \<open>
  C8 as stated fails where the platform refuses the request: the Web
  Cryptography API has \<^verbatim>\<open>getRandomValues\<close> throw on more than 65536 bytes, and
  \<^verbatim>\<open>randomBytes\<close> then throws instead of resolving.
\<close>

theorem randomBytes_quota_counterexample:
  "outcome (randomBytes ex_edge 65537) = Inl (Error ''QuotaExceededError'')"
  by (simp add: ex_defs randomBytes_def subtle_defs js_defs)

text \<open>
  C9, as amended. For an algorithm identifier outside the enumerated set no method
  fails fast. \<^verbatim>\<open>hash\<close> treats it as sha512 on both paths: it makes the calls, and has
  the result, it has for \<^verbatim>\<open>sha512\<close>. So do \<^verbatim>\<open>hmac\<close> and \<^verbatim>\<open>pbkdf2\<close> on the native path.
  On the software path \<^verbatim>\<open>hmac\<close> and \<^verbatim>\<open>pbkdf2\<close> hand the identifier to the software
  library as it is (\<^verbatim>\<open>pbkdf2\<close> with the output length 64), so that the result is what
  the library makes of that identifier.
\<close>

theorem unknown_algorithm:
  fixes im :: "('md, 'hm, 'dc, 'bb) Imports" and this :: "'k WebCryptoFunctionService"
  assumes "a \<notin> {''sha1'', ''sha256'', ''sha512''}"
  shows "hash im this v a = hash im this v ''sha512'' \<and>
         (\<not> this_isEdge this \<longrightarrow>
            hmac im this d key a = hmac im this d key ''sha512'' \<and>
            pbkdf2 im this pw salt a n = pbkdf2 im this pw salt ''sha512'' n) \<and>
         (this_isEdge this \<longrightarrow>
            (\<forall>h. f_hmac_create (forge im) = Inr h \<longrightarrow>
               Forge_hmac_start a (fromBufferToByteString key) \<in> set (calls (hmac im this d key a))) \<and>
            (\<forall>pb sb. outcome (toByteString im pw :: ('k, jsstring) js) = Inr pb \<longrightarrow>
               outcome (toByteString im salt :: ('k, jsstring) js) = Inr sb \<longrightarrow>
               Forge_pbkdf2 pb sb n 64 a \<in> set (calls (pbkdf2 im this pw salt a n))))"
proof -
  have a: "a \<noteq> ''sha1''" "a \<noteq> ''sha256''"
    using assms by simp_all
  have 1: "hash im this v a = hash im this v ''sha512''"
    using a by (simp add: hash_def toWebCryptoAlgorithm_def)
  have 2: "hmac im this d key a = hmac im this d key ''sha512''"
    "pbkdf2 im this pw salt a n = pbkdf2 im this pw salt ''sha512'' n" if "\<not> this_isEdge this"
    using a that by (simp_all add: hmac_def pbkdf2_def toWebCryptoAlgorithm_def)
  have 3: "Forge_hmac_start a (fromBufferToByteString key) \<in> set (calls (hmac im this d key a))"
    if "this_isEdge this" "f_hmac_create (forge im) = Inr h" for h
    using that
    by (simp add: hmac_def toByteString_def calls_js_bind forge_defs split: sum.splits)
  have 4: "Forge_pbkdf2 pb sb n 64 a \<in> set (calls (pbkdf2 im this pw salt a n))"
    if "this_isEdge this" "outcome (toByteString im pw :: ('k, jsstring) js) = Inr pb"
      "outcome (toByteString im salt :: ('k, jsstring) js) = Inr sb" for pb sb
    using that a
    by (simp add: pbkdf2_def calls_js_bind forge_defs split: sum.splits)
  show ?thesis
    using 1 2 3 4 by blast
qed

theorem unknown_algorithm_witness:
  "''md5'' \<notin> {''sha1'', ''sha256'', ''sha512''} \<and>
   hash ex_imports ex_edge (Buf [1]) ''md5'' = hash ex_imports ex_edge (Buf [1]) ''sha512'' \<and>
   Forge_pbkdf2 [1] [2] 1 64 ''md5''
     \<in> set (calls (pbkdf2 ex_imports ex_edge (Buf [1]) (Buf [2]) ''md5'' 1))"
proof -
  have h: "''md5'' \<notin> {''sha1'', ''sha256'', ''sha512''}"
    by simp
  have e: "this_isEdge ex_edge"
    by (rule ex_flags)
  have b: "outcome (toByteString ex_imports (Buf [1]) :: (CryptoKey, jsstring) js) = Inr [1]"
    "outcome (toByteString ex_imports (Buf [2]) :: (CryptoKey, jsstring) js) = Inr [2]"
    by (simp_all add: toByteString_def fromBufferToByteString_def)
  show ?thesis
    using h e b
      unknown_algorithm [OF h, where im = ex_imports and this = ex_edge and v = "Buf [1]"
        and pw = "Buf [1]" and salt = "Buf [2]" and n = 1]
    by blast
qed

text \<open>
  C9 as stated fails on the software path: with the identifier \<^verbatim>\<open>foo\<close>, \<^verbatim>\<open>hmac\<close> and
  \<^verbatim>\<open>pbkdf2\<close> pass \<^verbatim>\<open>foo\<close> to the software library, not \<^verbatim>\<open>sha512\<close>, and the library,
  which knows no digest of that name, throws: both methods reject.
\<close>

theorem unknown_algorithm_counterexample:
  "hmac ex_imports ex_edge [1] [2] ''foo'' =
     ([Forge_hmac_create, Forge_hmac_start ''foo'' [2]],
      Rejected (Error (''Unknown hash algorithm '' @ [CHR 0x22] @ ''foo'' @ [CHR 0x22]))) \<and>
   hmac ex_imports ex_edge [1] [2] ''foo'' \<noteq> hmac ex_imports ex_edge [1] [2] ''sha512'' \<and>
   pbkdf2 ex_imports ex_edge (Buf [1]) (Buf [2]) ''foo'' 1 =
     ([Forge_pbkdf2 [1] [2] 1 64 ''foo''], Rejected (Error ''Unknown hash algorithm: foo'')) \<and>
   pbkdf2 ex_imports ex_edge (Buf [1]) (Buf [2]) ''foo'' 1
     \<noteq> pbkdf2 ex_imports ex_edge (Buf [1]) (Buf [2]) ''sha512'' 1"
  by (simp add: hmac_def pbkdf2_def ex_flags toByteString_def fromBufferToByteString_def
      fromByteStringToArray_def forge_defs js_defs)
    (simp add: ex_defs ref_defs)

text \<open>
  C10. \<^verbatim>\<open>rsaEncrypt\<close> first imports the public key with the format \<^verbatim>\<open>spki\<close>, not
  extractable, for the one usage \<^verbatim>\<open>encrypt\<close>; \<^verbatim>\<open>rsaDecrypt\<close> the private key with the
  format \<^verbatim>\<open>pkcs8\<close>, not extractable, for the one usage \<^verbatim>\<open>decrypt\<close>. When the backend
  rejects the import, as it does for a key in another encoding, the method makes no
  other call and rejects with that error; otherwise its one other call is the
  encryption or decryption, under the handle that this import returned.
\<close>

theorem rsa_key_import:
  fixes this :: "'k WebCryptoFunctionService"
  shows "(case s_importKey (this_subtle this) ''spki'' pub
                 (NameHash ''RSA-OAEP'' (toWebCryptoAlgorithm a)) False [''encrypt''] of
            Inl e \<Rightarrow>
              rsaEncrypt this d pub a =
                ([Subtle_importKey ''spki'' pub (NameHash ''RSA-OAEP'' (toWebCryptoAlgorithm a)) False
                    [''encrypt'']], Rejected e)
          | Inr impKey \<Rightarrow>
              rsaEncrypt this d pub a =
                ([Subtle_importKey ''spki'' pub (NameHash ''RSA-OAEP'' (toWebCryptoAlgorithm a)) False
                    [''encrypt''],
                  Subtle_encrypt (NameHash ''RSA-OAEP'' (toWebCryptoAlgorithm a)) impKey d],
                 case s_encrypt (this_subtle this) (NameHash ''RSA-OAEP'' (toWebCryptoAlgorithm a))
                        impKey d of
                   Inl e \<Rightarrow> Rejected e
                 | Inr c \<Rightarrow> Resolved c)) \<and>
         (case s_importKey (this_subtle this) ''pkcs8'' priv
                 (NameHash ''RSA-OAEP'' (toWebCryptoAlgorithm a)) False [''decrypt''] of
            Inl e \<Rightarrow>
              rsaDecrypt this d priv a =
                ([Subtle_importKey ''pkcs8'' priv (NameHash ''RSA-OAEP'' (toWebCryptoAlgorithm a)) False
                    [''decrypt'']], Rejected e)
          | Inr impKey \<Rightarrow>
              rsaDecrypt this d priv a =
                ([Subtle_importKey ''pkcs8'' priv (NameHash ''RSA-OAEP'' (toWebCryptoAlgorithm a)) False
                    [''decrypt''],
                  Subtle_decrypt (NameHash ''RSA-OAEP'' (toWebCryptoAlgorithm a)) impKey d],
                 case s_decrypt (this_subtle this) (NameHash ''RSA-OAEP'' (toWebCryptoAlgorithm a))
                        impKey d of
                   Inl e \<Rightarrow> Rejected e
                 | Inr p \<Rightarrow> Resolved p))"
  by (simp add: rsaEncrypt_def rsaDecrypt_def Let_def subtle_defs js_defs
      split: sum.splits prod.splits)

theorem rsa_key_import_witness:
  "rsaEncrypt ex_other [1] [1] ''sha1'' =
     ([Subtle_importKey ''spki'' [1] (NameHash ''RSA-OAEP'' ''SHA-1'') False [''encrypt'']],
      Rejected (Error ''DataError'')) \<and>
   rsaDecrypt ex_other [1] [0x30, 1] ''sha256'' =
     ([Subtle_importKey ''pkcs8'' [0x30, 1] (NameHash ''RSA-OAEP'' ''SHA-256'') False [''decrypt''],
       Subtle_decrypt (NameHash ''RSA-OAEP'' ''SHA-256'')
         \<lparr> k_format = ''pkcs8'', k_data = [0x30, 1], k_algorithm = NameHash ''RSA-OAEP'' ''SHA-256'',
           k_extractable = False, k_usages = [''decrypt''] \<rparr> [1]],
      Rejected (Error ''NotSupportedError''))"
  using rsa_key_import [where this = ex_other and a = "''sha1''" and d = "[1]" and pub = "[1]"]
    rsa_key_import [where this = ex_other and a = "''sha256''" and d = "[1]" and priv = "[0x30, 1]"]
  by (simp add: ex_defs ref_defs toWebCryptoAlgorithm_def)

section \<open>What the methods compute\<close>

lemma forge_md_okD:
  assumes "forge_md_ok P view F"
  shows "f_md_update F m (fromBufferToByteString msg) ''raw'' = Inr m' \<Longrightarrow>
           view m' = (fst (view m), snd (view m) @ msg)"
    and "f_md_digest F m = Inr b \<Longrightarrow>
           f_buffer_data F b = fromBufferToByteString (P_hash P (fst (view m)) (snd (view m)))"
  using assms unfolding forge_md_ok_def by blast+

lemma forge_hmac_okD:
  assumes "forge_hmac_ok P view F"
  shows "algorithm_table a = Some (n, len) \<Longrightarrow>
           f_hmac_start F h a (fromBufferToByteString key) = Inr h' \<Longrightarrow> view h' = (n, key, [])"
    and "f_hmac_update F h (fromBufferToByteString msg) = Inr h' \<Longrightarrow>
           view h' = (fst (view h), fst (snd (view h)), snd (snd (view h)) @ msg)"
    and "f_hmac_digest F h = Inr b \<Longrightarrow> f_buffer_getBytes F b = Inr s \<Longrightarrow>
           s = fromBufferToByteString
                 (P_hmac P (fst (view h)) (fst (snd (view h))) (snd (snd (view h))))"
  using assms unfolding forge_hmac_ok_def by blast+

lemma md_create_view:
  assumes "forge_md_ok P view F" and "algorithm_table a = Some (n, len)"
    and "(if a = ''sha1'' then f_md_sha1_create F
          else if a = ''sha256'' then f_md_sha256_create F else f_md_sha512_create F) = Inr m"
  shows "view m = (n, [])"
  using assms by (auto simp: forge_md_ok_def algorithm_table_def split: if_splits)

lemma hash_software_computes:
  fixes im :: "('md, 'hm, 'dc, 'bb) Imports" and this :: "'k WebCryptoFunctionService"
  assumes ok: "forge_md_ok P view (forge im)"
    and utf8: "forge_utf8_ok (Utils_fromUtf8ToArray im) (forge im)"
    and a: "algorithm_table a = Some (n, len)"
    and e: "this_isEdge this"
    and r: "outcome (hash im this v a) = Resolved out"
  shows "out = P_hash P n (toBuf im v)"
proof -
  from r e obtain m vb m' b where
    c: "(if a = ''sha1'' then f_md_sha1_create (forge im)
         else if a = ''sha256'' then f_md_sha256_create (forge im)
         else f_md_sha512_create (forge im)) = Inr m"
    and vb: "outcome (toByteString im v :: ('k, jsstring) js) = Inr vb"
    and u: "f_md_update (forge im) m vb ''raw'' = Inr m'"
    and d: "f_md_digest (forge im) m' = Inr b"
    and out: "out = fromByteStringToArray (f_buffer_data (forge im) b)"
    by (auto simp: hash_def forge_defs split: if_splits)
  have "view m = (n, [])"
    by (rule md_create_view [OF ok a c])
  moreover have "vb = fromBufferToByteString (toBuf im v)"
    by (rule toByteString_bridge [OF utf8 vb])
  ultimately have "view m' = (n, toBuf im v)"
    using forge_md_okD(1) [OF ok, of m "toBuf im v" m'] u by simp
  then have "f_buffer_data (forge im) b = fromBufferToByteString (P_hash P n (toBuf im v))"
    using forge_md_okD(2) [OF ok d] by simp
  then show ?thesis
    using out by (simp add: fromByteString_toByteString)
qed

lemma hash_native_computes:
  fixes im :: "('md, 'hm, 'dc, 'bb) Imports" and this :: "'k WebCryptoFunctionService"
  assumes ok: "subtle_digest_ok P (this_subtle this)"
    and a: "algorithm_table a = Some (n, len)"
    and e: "\<not> this_isEdge this"
    and r: "outcome (hash im this v a) = Resolved out"
  shows "out = P_hash P n (toBuf im v)"
  using assms table_name(1) [OF a]
  by (auto simp: hash_def subtle_defs subtle_digest_ok_def)

lemma hmac_software_computes:
  fixes im :: "('md, 'hm, 'dc, 'bb) Imports" and this :: "'k WebCryptoFunctionService"
  assumes ok: "forge_hmac_ok P view (forge im)"
    and a: "algorithm_table a = Some (n, len)"
    and e: "this_isEdge this"
    and r: "outcome (hmac im this d key a) = Resolved out"
  shows "out = P_hmac P n key d"
proof -
  from r e obtain h0 h1 h2 b s where
    st: "f_hmac_start (forge im) h0 a (fromBufferToByteString key) = Inr h1"
    and u: "f_hmac_update (forge im) h1 (fromBufferToByteString d) = Inr h2"
    and dg: "f_hmac_digest (forge im) h2 = Inr b"
    and g: "f_buffer_getBytes (forge im) b = Inr s"
    and out: "out = fromByteStringToArray s"
    by (auto simp: hmac_def toByteString_def forge_defs)
  have "view h1 = (n, key, [])"
    by (rule forge_hmac_okD(1) [OF ok a st])
  then have "view h2 = (n, key, d)"
    using forge_hmac_okD(2) [OF ok u] by simp
  then have "s = fromBufferToByteString (P_hmac P n key d)"
    using forge_hmac_okD(3) [OF ok dg g] by simp
  then show ?thesis
    using out by (simp add: fromByteString_toByteString)
qed

lemma hmac_native_computes:
  fixes im :: "('md, 'hm, 'dc, 'bb) Imports" and this :: "'k WebCryptoFunctionService"
  assumes ok: "subtle_hmac_ok P (this_subtle this)"
    and a: "algorithm_table a = Some (n, len)"
    and e: "\<not> this_isEdge this"
    and r: "outcome (hmac im this d key a) = Resolved out"
  shows "out = P_hmac P n key d"
proof -
  from r e obtain h where
    "s_importKey (this_subtle this) ''raw'' key (NameHash ''HMAC'' n) False [''sign''] = Inr h"
    and "s_sign (this_subtle this) (NameHash ''HMAC'' n) h d = Inr out"
    using table_name(1) [OF a] by (auto simp: hmac_def Let_def subtle_defs)
  then show ?thesis
    using ok unfolding subtle_hmac_ok_def by blast
qed

lemma pbkdf2_software_computes:
  fixes im :: "('md, 'hm, 'dc, 'bb) Imports" and this :: "'k WebCryptoFunctionService"
  assumes ok: "forge_pbkdf2_ok P (forge im)"
    and utf8: "forge_utf8_ok (Utils_fromUtf8ToArray im) (forge im)"
    and a: "algorithm_table a = Some (n, len)"
    and c: "0 < c"
    and e: "this_isEdge this"
    and r: "outcome (pbkdf2 im this pw salt a c) = Resolved out"
  shows "out = P_pbkdf2 P n (toBuf im pw) (toBuf im salt) c (if a = ''sha256'' then 32 else 64)"
proof -
  from r e obtain pb sb dk where
    pb: "outcome (toByteString im pw :: ('k, jsstring) js) = Inr pb"
    and sb: "outcome (toByteString im salt :: ('k, jsstring) js) = Inr sb"
    and dk: "f_pbkdf2 (forge im) pb sb c (if a = ''sha256'' then 32 else 64) a = Inr dk"
    and out: "out = fromByteStringToArray dk"
    by (auto simp: pbkdf2_def Let_def forge_defs split: if_splits)
  have "dk = fromBufferToByteString
          (P_pbkdf2 P n (toBuf im pw) (toBuf im salt) c (if a = ''sha256'' then 32 else 64))"
    using ok a c dk
    unfolding forge_pbkdf2_ok_def toByteString_bridge [OF utf8 pb] toByteString_bridge [OF utf8 sb]
    by blast
  then show ?thesis
    using out by (simp add: fromByteString_toByteString)
qed

lemma pbkdf2_native_computes:
  fixes im :: "('md, 'hm, 'dc, 'bb) Imports" and this :: "'k WebCryptoFunctionService"
  assumes ok: "subtle_pbkdf2_ok P (this_subtle this)"
    and a: "algorithm_table a = Some (n, len)"
    and c: "0 < c"
    and e: "\<not> this_isEdge this"
    and r: "outcome (pbkdf2 im this pw salt a c) = Resolved out"
  shows "out = P_pbkdf2 P n (toBuf im pw) (toBuf im salt) c (if a = ''sha256'' then 32 else 64)"
proof -
  from r e obtain h where
    "s_importKey (this_subtle this) ''raw'' (toBuf im pw) (Name ''PBKDF2'') False [''deriveBits'']
       = Inr h"
    and "s_deriveBits (this_subtle this) (Pbkdf2Params ''PBKDF2'' (toBuf im salt) c n) h
           (if a = ''sha256'' then 256 else 512) = Inr out"
    using table_name(1) [OF a] by (auto simp: pbkdf2_def Let_def subtle_defs split: if_splits)
  then have "out = P_pbkdf2 P n (toBuf im pw) (toBuf im salt) c
                     ((if a = ''sha256'' then 256 else 512) div 8)"
    using ok c unfolding subtle_pbkdf2_ok_def by blast
  then show ?thesis
    by (simp split: if_splits)
qed

subsection \<open>The reference backends implement the primitives\<close>

lemma ref_forge_ok:
  "forge_md_ok P (\<lambda>m. m) (ref_forge P utf8)"
  "forge_hmac_ok P (\<lambda>h. h) (ref_forge P utf8)"
  "forge_pbkdf2_ok P (ref_forge P utf8)"
  "forge_utf8_ok utf8 (ref_forge P utf8)"
  by (auto simp: forge_md_ok_def forge_hmac_ok_def forge_pbkdf2_ok_def forge_utf8_ok_def
      ref_forge_def ref_pbkdf2_def ref_hmac_start_def forge_digests_def algorithm_table_def
      fromByteString_toByteString split: option.splits if_splits)

lemma ref_subtle_ok:
  "subtle_digest_ok P (ref_subtle P)"
  "subtle_hmac_ok P (ref_subtle P)"
  "subtle_pbkdf2_ok P (ref_subtle P)"
  by (auto simp: subtle_digest_ok_def subtle_hmac_ok_def subtle_pbkdf2_ok_def
      ref_subtle_def ref_importKey_def ref_digest_def ref_sign_def ref_deriveBits_def Let_def
      split: if_splits option.splits)

lemma ref_forge_decipher_ok: "forge_decipher_ok P decipher_view (ref_forge P utf8)"
  by (auto simp: forge_decipher_ok_def ref_forge_def ref_decipher_finish_def decipher_view_def
      fromByteString_toByteString split: option.splits)

lemma ref_subtle_aes_ok: "subtle_aes_ok P (ref_subtle P)"
  by (auto simp: subtle_aes_ok_def ref_subtle_def ref_importKey_def ref_encrypt_def
      ref_decrypt_def Let_def split: option.splits if_splits)

lemma ex_backends:
  "forge ex_imports = ref_forge ex_prims ex_utf8"
  "Utils_fromUtf8ToArray ex_imports = ex_utf8"
  "this_subtle ex_edge = ref_subtle ex_prims"
  "this_subtle ex_other = ref_subtle ex_prims"
  by (simp_all add: ex_imports_def ex_edge_def ex_other_def ex_window_def constructor_def
      ref_crypto_def)

lemma ex_prims_lengths: "standard_lengths ex_prims"
  by (auto simp: standard_lengths_def ex_prims_def ex_length_def algorithm_table_def
      split: if_splits)

lemma pkcs7_unpad_pad: "pkcs7_unpad (pkcs7_pad p) = Some p"
proof -
  define n where "n = 16 - length p mod 16"
  have n: "0 < n" "n \<le> 16"
    by (simp_all add: n_def)
  have m: "(length p + n) mod 16 = 0"
    unfolding n_def by presburger
  have u: "unat (of_nat n :: byte) = n"
    using n by (simp add: unat_of_nat)
  have l: "last (p @ replicate n (of_nat n :: byte)) = of_nat n"
    using n by simp
  show ?thesis
    using n m u l by (simp add: pkcs7_unpad_def pkcs7_pad_def n_def [symmetric] Let_def)
qed

lemma ex_prims_inverse: "cbc_inverse ex_prims"
  by (simp add: cbc_inverse_def ex_prims_def pkcs7_unpad_pad o_def)

lemma table_values:
  "algorithm_table ''sha1'' = Some (''SHA-1'', 20)"
  "algorithm_table ''sha256'' = Some (''SHA-256'', 32)"
  "algorithm_table ''sha512'' = Some (''SHA-512'', 64)"
  by (simp_all add: algorithm_table_def)

lemma ex_contracts:
  "forge_md_ok ex_prims (\<lambda>m. m) (forge ex_imports)"
  "forge_hmac_ok ex_prims (\<lambda>h. h) (forge ex_imports)"
  "forge_pbkdf2_ok ex_prims (forge ex_imports)"
  "forge_utf8_ok (Utils_fromUtf8ToArray ex_imports) (forge ex_imports)"
  "subtle_digest_ok ex_prims (this_subtle ex_edge)"
  "subtle_hmac_ok ex_prims (this_subtle ex_edge)"
  "subtle_pbkdf2_ok ex_prims (this_subtle ex_edge)"
  "subtle_digest_ok ex_prims (this_subtle ex_other)"
  "subtle_hmac_ok ex_prims (this_subtle ex_other)"
  "subtle_pbkdf2_ok ex_prims (this_subtle ex_other)"
  by (simp_all add: ex_backends ref_forge_ok ref_subtle_ok)

lemma ex_aes_contracts:
  "forge_decipher_ok ex_prims decipher_view (forge ex_imports)"
  "subtle_aes_ok ex_prims (this_subtle ex_edge)"
  "subtle_aes_ok ex_prims (this_subtle ex_other)"
  by (simp_all add: ex_backends ref_forge_decipher_ok ref_subtle_aes_ok)

subsection \<open>When the backend calls return\<close>

lemma hash_software_resolves:
  fixes im :: "('md, 'hm, 'dc, 'bb) Imports" and this :: "'k WebCryptoFunctionService"
  assumes "this_isEdge this"
    and "outcome (toByteString im v :: ('k, jsstring) js) = Inr vb"
    and "forge_hash_returns (forge im) a vb b"
  shows "outcome (hash im this v a)
           = Resolved (fromByteStringToArray (f_buffer_data (forge im) b))"
  using assms
  by (auto simp: hash_def forge_hash_returns_def forge_defs split: if_splits)

lemma hash_native_resolves:
  fixes im :: "('md, 'hm, 'dc, 'bb) Imports" and this :: "'k WebCryptoFunctionService"
  assumes "\<not> this_isEdge this"
    and "algorithm_table a = Some (n, len)"
    and "s_digest (this_subtle this) (Name n) (toBuf im v) = Inr out"
  shows "outcome (hash im this v a) = Resolved out"
  using assms table_name(1) [OF assms(2)]
  by (simp add: hash_def subtle_defs)

lemma hmac_software_resolves:
  fixes im :: "('md, 'hm, 'dc, 'bb) Imports" and this :: "'k WebCryptoFunctionService"
  assumes "this_isEdge this"
    and "forge_hmac_returns (forge im) a (fromBufferToByteString key) (fromBufferToByteString d) s"
  shows "outcome (hmac im this d key a) = Resolved (fromByteStringToArray s)"
  using assms
  by (auto simp: hmac_def forge_hmac_returns_def toByteString_def forge_defs)

lemma hmac_native_resolves:
  fixes im :: "('md, 'hm, 'dc, 'bb) Imports" and this :: "'k WebCryptoFunctionService"
  assumes "\<not> this_isEdge this"
    and "algorithm_table a = Some (n, len)"
    and "subtle_hmac_returns (this_subtle this) n key d out"
  shows "outcome (hmac im this d key a) = Resolved out"
  using assms table_name(1) [OF assms(2)]
  by (auto simp: hmac_def subtle_hmac_returns_def Let_def subtle_defs)

lemma pbkdf2_software_resolves:
  fixes im :: "('md, 'hm, 'dc, 'bb) Imports" and this :: "'k WebCryptoFunctionService"
  assumes "this_isEdge this"
    and "outcome (toByteString im pw :: ('k, jsstring) js) = Inr pb"
    and "outcome (toByteString im salt :: ('k, jsstring) js) = Inr sb"
    and "f_pbkdf2 (forge im) pb sb c (if a = ''sha256'' then 32 else 64) a = Inr dk"
  shows "outcome (pbkdf2 im this pw salt a c) = Resolved (fromByteStringToArray dk)"
  using assms
  by (auto simp: pbkdf2_def Let_def forge_defs split: if_splits)

lemma pbkdf2_native_resolves:
  fixes im :: "('md, 'hm, 'dc, 'bb) Imports" and this :: "'k WebCryptoFunctionService"
  assumes "\<not> this_isEdge this"
    and "algorithm_table a = Some (n, len)"
    and "subtle_pbkdf2_returns (this_subtle this) n (toBuf im pw) (toBuf im salt) c
           (if a = ''sha256'' then 256 else 512) out"
  shows "outcome (pbkdf2 im this pw salt a c) = Resolved out"
  using assms table_name(1) [OF assms(2)]
  by (auto simp: pbkdf2_def subtle_pbkdf2_returns_def Let_def subtle_defs split: if_splits)

subsection \<open>Lengths and examples\<close>

lemma table_lengths:
  assumes "algorithm_table a = Some (n, l)" and "a \<noteq> ''sha1''"
  shows "(if a = ''sha256'' then 32 else 64) = l"
    and "(if a = ''sha256'' then 256 else 512) = 8 * l"
  using assms by (auto simp: algorithm_table_def split: if_splits)

lemma standard_lengthsD:
  assumes "standard_lengths P" and "algorithm_table a = Some (n, l)"
  shows "length (P_hash P n d) = l"
    and "length (P_hmac P n k d) = l"
    and "length (P_pbkdf2 P n pw salt c m) = m"
  using assms unfolding standard_lengths_def by blast+

lemmas ex_eval = ex_flags ex_backends toByteString_def toBuf_def forge_defs subtle_defs
  ref_forge_def ref_subtle_def ref_defs ex_prims_def ex_utf8_def ex_mask_def
  fromBufferToByteString_def fromByteStringToArray_def algorithm_table_def ex_length_def
  toWebCryptoAlgorithm_def Let_def

lemma ex_hash:
  "outcome (hash ex_imports ex_edge (Str [65, 66]) ''sha256'') = Resolved (replicate 32 131)"
  "outcome (hash ex_imports ex_other (Str [65, 66]) ''sha256'') = Resolved (replicate 32 131)"
  by (simp_all add: hash_def ex_eval)

lemma ex_hmac:
  "outcome (hmac ex_imports ex_edge [1] [2] ''sha256'') = Resolved (replicate 32 3)"
  "outcome (hmac ex_imports ex_other [1] [2] ''sha256'') = Resolved (replicate 32 3)"
  by (simp_all add: hmac_def ex_eval)

lemma ex_pbkdf2:
  "outcome (pbkdf2 ex_imports ex_edge (Str [65, 66]) (Buf [1]) ''sha256'' 2)
     = Resolved (replicate 32 134)"
  "outcome (pbkdf2 ex_imports ex_other (Str [65, 66]) (Buf [1]) ''sha256'' 2)
     = Resolved (replicate 32 134)"
  by (simp_all add: pbkdf2_def ex_eval)

lemma ex_bytes_of:
  "outcome (toByteString ex_imports (Str [65, 66]) :: (CryptoKey, jsstring) js) = Inr [65, 66]"
  "outcome (toByteString ex_imports (Buf [1]) :: (CryptoKey, jsstring) js) = Inr [1]"
  "toBuf ex_imports (Str [65, 66]) = [65, 66]"
  "toBuf ex_imports (Buf [1]) = [1]"
  by (simp_all add: ex_eval)

lemma ex_software_returns:
  "forge_hash_returns (forge ex_imports) ''sha256'' [65, 66] (replicate 32 131)"
  "forge_hmac_returns (forge ex_imports) ''sha256'' (fromBufferToByteString [2])
     (fromBufferToByteString [1]) (replicate 32 3)"
  "f_pbkdf2 (forge ex_imports) [65, 66] [1] 2 32 ''sha256'' = Inr (replicate 32 134)"
  by (simp_all add: forge_hash_returns_def forge_hmac_returns_def ex_eval)

lemma ex_native_returns:
  "s_digest (this_subtle ex_other) (Name ''SHA-256'') [65, 66] = Inr (replicate 32 131)"
  "subtle_hmac_returns (this_subtle ex_other) ''SHA-256'' [2] [1] (replicate 32 3)"
  "subtle_pbkdf2_returns (this_subtle ex_other) ''SHA-256'' [65, 66] [1] 2 256 (replicate 32 134)"
  by (simp_all add: subtle_hmac_returns_def subtle_pbkdf2_returns_def ex_eval)

lemma ex_buffers:
  "fromByteStringToArray (f_buffer_data (forge ex_imports) (replicate 32 131)) = replicate 32 131"
  "fromByteStringToArray (replicate 32 3) = replicate 32 3"
  "fromByteStringToArray (replicate 32 134) = replicate 32 134"
  by (simp_all add: ex_eval)

lemma ex_pad: "pkcs7_pad [1, 2, 3] = [1, 2, 3, 13, 13, 13, 13, 13, 13, 13, 13, 13, 13, 13, 13, 13]"
  by code_simp

lemma ex_cbc:
  "P_cbc_encrypt ex_prims ex_key ex_iv [1, 2, 3] = ex_ciphertext"
  "P_cbc_decrypt ex_prims ex_key ex_iv ex_ciphertext = Some [1, 2, 3]"
  by (simp_all add: ex_prims_def ex_mask_def ex_pad pkcs7_unpad_def ex_key_def ex_iv_def
      ex_ciphertext_def)

lemma ex_aes:
  "outcome (aesEncrypt ex_other [1, 2, 3] ex_iv ex_key) = Resolved ex_ciphertext"
  "outcome (aesDecryptLarge ex_other ex_ciphertext ex_iv ex_key) = Resolved [1, 2, 3]"
  "outcome (aesDecryptSmall ex_imports ex_other ex_ciphertext ex_iv ex_key) = Resolved [1, 2, 3]"
  by (auto simp: aesEncrypt_def aesDecryptLarge_def aesDecryptSmall_def ex_backends
      toByteString_def forge_defs subtle_defs ref_forge_def ref_subtle_def ref_defs ex_cbc
      ex_lengths Let_def fromByteString_toByteString)

section \<open>Lengths, agreement of the backends, and the round trip\<close>

text \<open>
  C4, as amended. Let both backends implement the primitives, which have their
  standard output lengths, and let the algorithm be one of the enumerated set. Then
  on every input on which the calls to the backend that the flag selects return,
  \<^verbatim>\<open>hash\<close> and \<^verbatim>\<open>hmac\<close> resolve to a buffer of the length the algorithm table gives, 20
  bytes for sha1, 32 for sha256 and 64 for sha512, and \<^verbatim>\<open>pbkdf2\<close>, with a positive
  iteration count, to a buffer of 32 bytes for sha256 and of 64 for sha512.
\<close>

theorem output_lengths:
  fixes im :: "('md, 'hm, 'dc, 'bb) Imports" and this :: "'k WebCryptoFunctionService"
  assumes md: "forge_md_ok P mdv (forge im)"
    and hm: "forge_hmac_ok P hmv (forge im)"
    and pb: "forge_pbkdf2_ok P (forge im)"
    and utf8: "forge_utf8_ok (Utils_fromUtf8ToArray im) (forge im)"
    and sd: "subtle_digest_ok P (this_subtle this)"
    and sh: "subtle_hmac_ok P (this_subtle this)"
    and sp: "subtle_pbkdf2_ok P (this_subtle this)"
    and len: "standard_lengths P"
    and a: "algorithm_table a = Some (n, l)"
  shows "(this_isEdge this \<longrightarrow>
            (outcome (toByteString im v :: ('k, jsstring) js) = Inr vb \<and>
             forge_hash_returns (forge im) a vb b \<longrightarrow>
               outcome (hash im this v a)
                 = Resolved (fromByteStringToArray (f_buffer_data (forge im) b)) \<and>
               length (fromByteStringToArray (f_buffer_data (forge im) b)) = l) \<and>
            (forge_hmac_returns (forge im) a (fromBufferToByteString key)
               (fromBufferToByteString d) s \<longrightarrow>
               outcome (hmac im this d key a) = Resolved (fromByteStringToArray s) \<and>
               length (fromByteStringToArray s) = l) \<and>
            (0 < c \<and> a \<noteq> ''sha1'' \<and>
             outcome (toByteString im pw :: ('k, jsstring) js) = Inr pwb \<and>
             outcome (toByteString im salt :: ('k, jsstring) js) = Inr sb \<and>
             f_pbkdf2 (forge im) pwb sb c l a = Inr dk \<longrightarrow>
               outcome (pbkdf2 im this pw salt a c) = Resolved (fromByteStringToArray dk) \<and>
               length (fromByteStringToArray dk) = l)) \<and>
         (\<not> this_isEdge this \<longrightarrow>
            (s_digest (this_subtle this) (Name n) (toBuf im v) = Inr out1 \<longrightarrow>
               outcome (hash im this v a) = Resolved out1 \<and> length out1 = l) \<and>
            (subtle_hmac_returns (this_subtle this) n key d out2 \<longrightarrow>
               outcome (hmac im this d key a) = Resolved out2 \<and> length out2 = l) \<and>
            (0 < c \<and> a \<noteq> ''sha1'' \<and>
             subtle_pbkdf2_returns (this_subtle this) n (toBuf im pw) (toBuf im salt) c (8 * l)
               out3 \<longrightarrow>
               outcome (pbkdf2 im this pw salt a c) = Resolved out3 \<and> length out3 = l))"
proof -
  have sh1: "outcome (hash im this v a)
               = Resolved (fromByteStringToArray (f_buffer_data (forge im) b)) \<and>
             length (fromByteStringToArray (f_buffer_data (forge im) b)) = l"
    if e: "this_isEdge this"
      and r: "outcome (toByteString im v :: ('k, jsstring) js) = Inr vb"
        "forge_hash_returns (forge im) a vb b"
  proof -
    note res = hash_software_resolves [OF e r]
    show ?thesis
      using res hash_software_computes [OF md utf8 a e res] standard_lengthsD(1) [OF len a]
      by simp
  qed
  have sh2: "outcome (hmac im this d key a) = Resolved (fromByteStringToArray s) \<and>
             length (fromByteStringToArray s) = l"
    if e: "this_isEdge this"
      and r: "forge_hmac_returns (forge im) a (fromBufferToByteString key)
                (fromBufferToByteString d) s"
  proof -
    note res = hmac_software_resolves [OF e r]
    show ?thesis
      using res hmac_software_computes [OF hm a e res] standard_lengthsD(2) [OF len a]
      by simp
  qed
  have sh3: "outcome (pbkdf2 im this pw salt a c) = Resolved (fromByteStringToArray dk) \<and>
             length (fromByteStringToArray dk) = l"
    if e: "this_isEdge this" and c: "0 < c" and s: "a \<noteq> ''sha1''"
      and r: "outcome (toByteString im pw :: ('k, jsstring) js) = Inr pwb"
        "outcome (toByteString im salt :: ('k, jsstring) js) = Inr sb"
      and k: "f_pbkdf2 (forge im) pwb sb c l a = Inr dk"
  proof -
    have k': "f_pbkdf2 (forge im) pwb sb c (if a = ''sha256'' then 32 else 64) a = Inr dk"
      using k unfolding table_lengths(1) [OF a s] .
    note res = pbkdf2_software_resolves [OF e r k']
    have "fromByteStringToArray dk = P_pbkdf2 P n (toBuf im pw) (toBuf im salt) c l"
      using pbkdf2_software_computes [OF pb utf8 a c e res] unfolding table_lengths(1) [OF a s] .
    then show ?thesis
      using res standard_lengthsD(3) [OF len a] by simp
  qed
  have n1: "outcome (hash im this v a) = Resolved out1 \<and> length out1 = l"
    if e: "\<not> this_isEdge this"
      and r: "s_digest (this_subtle this) (Name n) (toBuf im v) = Inr out1"
  proof -
    note res = hash_native_resolves [OF e a r]
    show ?thesis
      using res hash_native_computes [OF sd a e res] standard_lengthsD(1) [OF len a]
      by simp
  qed
  have n2: "outcome (hmac im this d key a) = Resolved out2 \<and> length out2 = l"
    if e: "\<not> this_isEdge this"
      and r: "subtle_hmac_returns (this_subtle this) n key d out2"
  proof -
    note res = hmac_native_resolves [OF e a r]
    show ?thesis
      using res hmac_native_computes [OF sh a e res] standard_lengthsD(2) [OF len a]
      by simp
  qed
  have n3: "outcome (pbkdf2 im this pw salt a c) = Resolved out3 \<and> length out3 = l"
    if e: "\<not> this_isEdge this" and c: "0 < c" and s: "a \<noteq> ''sha1''"
      and r: "subtle_pbkdf2_returns (this_subtle this) n (toBuf im pw) (toBuf im salt) c (8 * l)
                out3"
  proof -
    have r': "subtle_pbkdf2_returns (this_subtle this) n (toBuf im pw) (toBuf im salt) c
                (if a = ''sha256'' then 256 else 512) out3"
      using r unfolding table_lengths(2) [OF a s] .
    note res = pbkdf2_native_resolves [OF e a r']
    have "out3 = P_pbkdf2 P n (toBuf im pw) (toBuf im salt) c l"
      using pbkdf2_native_computes [OF sp a c e res] unfolding table_lengths(1) [OF a s] .
    then show ?thesis
      using res standard_lengthsD(3) [OF len a] by simp
  qed
  show ?thesis
    using sh1 sh2 sh3 n1 n2 n3 by blast
qed

theorem output_lengths_witness:
  "outcome (hash ex_imports ex_edge (Str [65, 66]) ''sha256'') = Resolved (replicate 32 131) \<and>
   outcome (hmac ex_imports ex_edge [1] [2] ''sha256'') = Resolved (replicate 32 3) \<and>
   outcome (pbkdf2 ex_imports ex_edge (Str [65, 66]) (Buf [1]) ''sha256'' 2)
     = Resolved (replicate 32 134) \<and>
   outcome (hash ex_imports ex_other (Str [65, 66]) ''sha256'') = Resolved (replicate 32 131) \<and>
   outcome (hmac ex_imports ex_other [1] [2] ''sha256'') = Resolved (replicate 32 3) \<and>
   outcome (pbkdf2 ex_imports ex_other (Str [65, 66]) (Buf [1]) ''sha256'' 2)
     = Resolved (replicate 32 134) \<and>
   length (replicate 32 (131 :: byte)) = 32 \<and> length (replicate 32 (3 :: byte)) = 32 \<and>
   length (replicate 32 (134 :: byte)) = 32"
proof -
  note e = output_lengths [OF ex_contracts(1-4) ex_contracts(5-7) ex_prims_lengths
      table_values(2), where v = "Str [65, 66]" and vb = "[65, 66]" and b = "replicate 32 131"
      and key = "[2]" and d = "[1]" and s = "replicate 32 3" and c = 2 and pw = "Str [65, 66]"
      and salt = "Buf [1]" and pwb = "[65, 66]" and sb = "[1]" and dk = "replicate 32 134"
      and ?out1.0 = "[]" and ?out2.0 = "[]" and ?out3.0 = "[]"]
  note n = output_lengths [OF ex_contracts(1-4) ex_contracts(8-10) ex_prims_lengths
      table_values(2), where v = "Str [65, 66]" and vb = "[]" and b = "[]"
      and key = "[2]" and d = "[1]" and s = "[]" and c = 2 and pw = "Str [65, 66]"
      and salt = "Buf [1]" and pwb = "[]" and sb = "[]" and dk = "[]"
      and ?out1.0 = "replicate 32 131" and ?out2.0 = "replicate 32 3"
      and ?out3.0 = "replicate 32 134"]
  have 1: "outcome (hash ex_imports ex_edge (Str [65, 66]) ''sha256'') = Resolved (replicate 32 131)"
    "outcome (hmac ex_imports ex_edge [1] [2] ''sha256'') = Resolved (replicate 32 3)"
    "outcome (pbkdf2 ex_imports ex_edge (Str [65, 66]) (Buf [1]) ''sha256'' 2)
       = Resolved (replicate 32 134)"
    "length (replicate 32 (131 :: byte)) = 32"
    using e ex_flags(1) ex_bytes_of(1,2) ex_software_returns by (simp_all add: ex_buffers)
  have 2: "outcome (hash ex_imports ex_other (Str [65, 66]) ''sha256'') = Resolved (replicate 32 131)"
    "outcome (hmac ex_imports ex_other [1] [2] ''sha256'') = Resolved (replicate 32 3)"
    "outcome (pbkdf2 ex_imports ex_other (Str [65, 66]) (Buf [1]) ''sha256'' 2)
       = Resolved (replicate 32 134)"
    using n ex_flags(2) ex_native_returns by (simp_all add: ex_bytes_of(3,4))
  show ?thesis
    using 1 2 by simp
qed

text \<open>
  C4 as stated fails on an input that the selected backend refuses: the Web
  Cryptography API rejects the import of an empty HMAC key, so that on the native
  path \<^verbatim>\<open>hmac\<close> with an empty key makes the one call \<^verbatim>\<open>importKey\<close> and rejects: there
  is no buffer of 32 bytes.
\<close>

theorem output_lengths_counterexample:
  "outcome (hmac ex_imports ex_other [1] [] ''sha256'') = Rejected (Error ''DataError'') \<and>
   calls (hmac ex_imports ex_other [1] [] ''sha256'')
     = [Subtle_importKey ''raw'' [] (NameHash ''HMAC'' ''SHA-256'') False [''sign'']]"
  by (simp add: hmac_def ex_eval js_defs)

text \<open>
  C7, as amended. Let the software backend and the native backend of a service that
  is not on Edge implement the same primitives. Then for every identifier of the
  enumerated set, and every input on which the calls to the software backend and the
  calls to the native backend return, \<^verbatim>\<open>hash\<close>, \<^verbatim>\<open>hmac\<close> and \<^verbatim>\<open>pbkdf2\<close> (with a
  positive iteration count) resolve on both paths, to the same buffer: the primitive
  that the algorithm table names, applied to the same bytes, for \<^verbatim>\<open>pbkdf2\<close> with the
  same output length.
\<close>

theorem same_primitive:
  fixes im :: "('md, 'hm, 'dc, 'bb) Imports" and edge other :: "'k WebCryptoFunctionService"
  assumes md: "forge_md_ok P mdv (forge im)"
    and hm: "forge_hmac_ok P hmv (forge im)"
    and pb: "forge_pbkdf2_ok P (forge im)"
    and utf8: "forge_utf8_ok (Utils_fromUtf8ToArray im) (forge im)"
    and sd: "subtle_digest_ok P (this_subtle other)"
    and sh: "subtle_hmac_ok P (this_subtle other)"
    and sp: "subtle_pbkdf2_ok P (this_subtle other)"
    and e: "this_isEdge edge"
    and ne: "\<not> this_isEdge other"
    and a: "algorithm_table a = Some (n, len)"
  shows "(outcome (toByteString im v :: ('k, jsstring) js) = Inr vb \<and>
          forge_hash_returns (forge im) a vb b \<and>
          s_digest (this_subtle other) (Name n) (toBuf im v) = Inr out1 \<longrightarrow>
            outcome (hash im edge v a) = Resolved (P_hash P n (toBuf im v)) \<and>
            outcome (hash im other v a) = Resolved (P_hash P n (toBuf im v))) \<and>
         (forge_hmac_returns (forge im) a (fromBufferToByteString key)
            (fromBufferToByteString d) s \<and>
          subtle_hmac_returns (this_subtle other) n key d out2 \<longrightarrow>
            outcome (hmac im edge d key a) = Resolved (P_hmac P n key d) \<and>
            outcome (hmac im other d key a) = Resolved (P_hmac P n key d)) \<and>
         (0 < c \<and>
          outcome (toByteString im pw :: ('k, jsstring) js) = Inr pwb \<and>
          outcome (toByteString im salt :: ('k, jsstring) js) = Inr sb \<and>
          f_pbkdf2 (forge im) pwb sb c (if a = ''sha256'' then 32 else 64) a = Inr dk \<and>
          subtle_pbkdf2_returns (this_subtle other) n (toBuf im pw) (toBuf im salt) c
            (if a = ''sha256'' then 256 else 512) out3 \<longrightarrow>
            outcome (pbkdf2 im edge pw salt a c)
              = Resolved (P_pbkdf2 P n (toBuf im pw) (toBuf im salt) c
                  (if a = ''sha256'' then 32 else 64)) \<and>
            outcome (pbkdf2 im other pw salt a c)
              = Resolved (P_pbkdf2 P n (toBuf im pw) (toBuf im salt) c
                  (if a = ''sha256'' then 32 else 64)))"
proof -
  have 1: "outcome (hash im edge v a) = Resolved (P_hash P n (toBuf im v)) \<and>
           outcome (hash im other v a) = Resolved (P_hash P n (toBuf im v))"
    if r: "outcome (toByteString im v :: ('k, jsstring) js) = Inr vb"
        "forge_hash_returns (forge im) a vb b"
      and t: "s_digest (this_subtle other) (Name n) (toBuf im v) = Inr out1"
  proof -
    note x = hash_software_resolves [OF e r]
    note y = hash_native_resolves [OF ne a t]
    show ?thesis
      using x y hash_software_computes [OF md utf8 a e x] hash_native_computes [OF sd a ne y]
      by simp
  qed
  have 2: "outcome (hmac im edge d key a) = Resolved (P_hmac P n key d) \<and>
           outcome (hmac im other d key a) = Resolved (P_hmac P n key d)"
    if r: "forge_hmac_returns (forge im) a (fromBufferToByteString key)
             (fromBufferToByteString d) s"
      and t: "subtle_hmac_returns (this_subtle other) n key d out2"
  proof -
    note x = hmac_software_resolves [OF e r]
    note y = hmac_native_resolves [OF ne a t]
    show ?thesis
      using x y hmac_software_computes [OF hm a e x] hmac_native_computes [OF sh a ne y]
      by simp
  qed
  have 3: "outcome (pbkdf2 im edge pw salt a c)
             = Resolved (P_pbkdf2 P n (toBuf im pw) (toBuf im salt) c
                 (if a = ''sha256'' then 32 else 64)) \<and>
           outcome (pbkdf2 im other pw salt a c)
             = Resolved (P_pbkdf2 P n (toBuf im pw) (toBuf im salt) c
                 (if a = ''sha256'' then 32 else 64))"
    if c: "0 < c"
      and r: "outcome (toByteString im pw :: ('k, jsstring) js) = Inr pwb"
        "outcome (toByteString im salt :: ('k, jsstring) js) = Inr sb"
        "f_pbkdf2 (forge im) pwb sb c (if a = ''sha256'' then 32 else 64) a = Inr dk"
      and t: "subtle_pbkdf2_returns (this_subtle other) n (toBuf im pw) (toBuf im salt) c
                (if a = ''sha256'' then 256 else 512) out3"
  proof -
    note x = pbkdf2_software_resolves [OF e r]
    note y = pbkdf2_native_resolves [OF ne a t]
    show ?thesis
      using x y pbkdf2_software_computes [OF pb utf8 a c e x]
        pbkdf2_native_computes [OF sp a c ne y]
      by simp
  qed
  show ?thesis
    using 1 2 3 by blast
qed

theorem same_primitive_witness:
  "outcome (hash ex_imports ex_edge (Str [65, 66]) ''sha256'')
     = Resolved (P_hash ex_prims ''SHA-256'' [65, 66]) \<and>
   outcome (hash ex_imports ex_other (Str [65, 66]) ''sha256'')
     = Resolved (P_hash ex_prims ''SHA-256'' [65, 66]) \<and>
   outcome (hmac ex_imports ex_edge [1] [2] ''sha256'')
     = Resolved (P_hmac ex_prims ''SHA-256'' [2] [1]) \<and>
   outcome (hmac ex_imports ex_other [1] [2] ''sha256'')
     = Resolved (P_hmac ex_prims ''SHA-256'' [2] [1]) \<and>
   outcome (pbkdf2 ex_imports ex_edge (Str [65, 66]) (Buf [1]) ''sha256'' 2)
     = Resolved (P_pbkdf2 ex_prims ''SHA-256'' [65, 66] [1] 2 32) \<and>
   outcome (pbkdf2 ex_imports ex_other (Str [65, 66]) (Buf [1]) ''sha256'' 2)
     = Resolved (P_pbkdf2 ex_prims ''SHA-256'' [65, 66] [1] 2 32)"
proof -
  note r = same_primitive [OF ex_contracts(1-4) ex_contracts(8-10) ex_flags table_values(2),
      where v = "Str [65, 66]" and vb = "[65, 66]" and b = "replicate 32 131"
      and ?out1.0 = "replicate 32 131" and key = "[2]" and d = "[1]" and s = "replicate 32 3"
      and ?out2.0 = "replicate 32 3" and c = 2 and pw = "Str [65, 66]" and salt = "Buf [1]"
      and pwb = "[65, 66]" and sb = "[1]" and dk = "replicate 32 134"
      and ?out3.0 = "replicate 32 134"]
  show ?thesis
    using r ex_bytes_of(1,2) ex_software_returns ex_native_returns
    by (simp add: ex_bytes_of(3,4))
qed

text \<open>
  C7 as stated fails on an input that one backend accepts and the other refuses:
  with an empty key, \<^verbatim>\<open>hmac\<close> resolves to a MAC on the software path, and rejects on
  the native path, where the import of the empty key fails.
\<close>

theorem same_primitive_counterexample:
  "outcome (hmac ex_imports ex_edge [1] [] ''sha256'') = Resolved (replicate 32 1) \<and>
   outcome (hmac ex_imports ex_other [1] [] ''sha256'') = Rejected (Error ''DataError'')"
  by (simp add: hmac_def ex_eval js_defs)

subsection \<open>AES-CBC\<close>

lemma encrypt_resolves:
  fixes this :: "'k WebCryptoFunctionService"
  assumes ok: "subtle_aes_ok P (this_subtle this)"
    and key: "length key \<in> {16, 24, 32}"
    and iv: "length iv = 16"
  shows "outcome (aesEncrypt this p iv key) = Resolved (P_cbc_encrypt P key iv p)"
proof -
  from ok key obtain h where
    h: "s_importKey (this_subtle this) ''raw'' key (Name ''AES-CBC'') False [''encrypt''] = Inr h"
    unfolding subtle_aes_ok_def by blast
  have "s_encrypt (this_subtle this) (NameIv ''AES-CBC'' iv) h p = Inr (P_cbc_encrypt P key iv p)"
    using ok h iv unfolding subtle_aes_ok_def by blast
  then show ?thesis
    using h by (simp add: aesEncrypt_def subtle_defs)
qed

lemma decrypt_large_resolves:
  fixes this :: "'k WebCryptoFunctionService"
  assumes ok: "subtle_aes_ok P (this_subtle this)"
    and key: "length key \<in> {16, 24, 32}"
    and iv: "length iv = 16"
    and p: "P_cbc_decrypt P key iv c = Some p"
  shows "outcome (aesDecryptLarge this c iv key) = Resolved p"
proof -
  from ok key obtain h where
    h: "s_importKey (this_subtle this) ''raw'' key (Name ''AES-CBC'') False [''decrypt''] = Inr h"
    unfolding subtle_aes_ok_def by blast
  have "s_decrypt (this_subtle this) (NameIv ''AES-CBC'' iv) h c = Inr p"
    using ok h iv p unfolding subtle_aes_ok_def by blast
  then show ?thesis
    using h by (simp add: aesDecryptLarge_def subtle_defs)
qed

lemma decrypt_small_resolves:
  fixes im :: "('md, 'hm, 'dc, 'bb) Imports" and this :: "'k WebCryptoFunctionService"
  assumes ok: "forge_decipher_ok P view (forge im)"
    and key: "length key \<in> {16, 24, 32}"
    and iv: "length iv = 16"
    and p: "P_cbc_decrypt P key iv c = Some p"
  shows "outcome (aesDecryptSmall im this c iv key) = Resolved p"
proof -
  from ok obtain buf where
    b: "f_util_createBuffer (forge im) (fromBufferToByteString c) = Inr buf"
    unfolding forge_decipher_ok_def by blast
  from ok key obtain d0 where
    d0: "f_cipher_createDecipher (forge im) ''AES-CBC'' (fromBufferToByteString key) = Inr d0"
    and v0: "fst (view d0) = key"
    unfolding forge_decipher_ok_def by blast
  from ok iv obtain d1 where
    d1: "f_decipher_start (forge im) d0 (fromBufferToByteString iv) = Inr d1"
    and v1: "view d1 = (fst (view d0), Some (iv, []))"
    unfolding forge_decipher_ok_def by blast
  have v1': "view d1 = (key, Some (iv, []))"
    using v0 v1 by simp
  from ok v1' b obtain d2 where
    d2: "f_decipher_update (forge im) d1 buf = Inr d2"
    and v2: "view d2 = (key, Some (iv, [] @ c))"
    unfolding forge_decipher_ok_def by blast
  have v2': "view d2 = (key, Some (iv, c))"
    using v2 by simp
  from ok v2' p obtain fin d3 where
    d3: "f_decipher_finish (forge im) d2 = Inr (fin, d3)"
    and f: "f_buffer_getBytes (forge im) (f_decipher_output (forge im) d3)
              = Inr (fromBufferToByteString p)"
    unfolding forge_decipher_ok_def by blast
  show ?thesis
    using b d0 d1 d2 d3 f
    by (simp add: aesDecryptSmall_def toByteString_def forge_defs fromByteString_toByteString)
qed

text \<open>
  C6. Let the native backend and the software decipher implement AES-CBC, whose
  decryption inverts its encryption under a key of 16, 24 or 32 bytes and an IV of
  16 bytes. Then for every plaintext \<open>p\<close>, such a key and such an IV, \<^verbatim>\<open>aesEncrypt\<close>
  resolves to a ciphertext on which, under the same IV and key, \<^verbatim>\<open>aesDecryptLarge\<close>
  and \<^verbatim>\<open>aesDecryptSmall\<close> both resolve to \<open>p\<close>.
\<close>

theorem aes_roundtrip:
  fixes im :: "('md, 'hm, 'dc, 'bb) Imports" and this :: "'k WebCryptoFunctionService"
  assumes sa: "subtle_aes_ok P (this_subtle this)"
    and fd: "forge_decipher_ok P view (forge im)"
    and inv: "cbc_inverse P"
    and iv: "length iv = 16"
    and key: "length key \<in> {16, 24, 32}"
  shows "\<exists>c. outcome (aesEncrypt this p iv key) = Resolved c \<and>
           outcome (aesDecryptLarge this c iv key) = Resolved p \<and>
           outcome (aesDecryptSmall im this c iv key) = Resolved p"
proof -
  have d: "P_cbc_decrypt P key iv (P_cbc_encrypt P key iv p) = Some p"
    using inv iv key unfolding cbc_inverse_def by blast
  show ?thesis
    using encrypt_resolves [OF sa key iv, of p] decrypt_large_resolves [OF sa key iv d]
      decrypt_small_resolves [OF fd key iv d, of this]
    by blast
qed

theorem aes_roundtrip_witness:
  "length ex_iv = 16 \<and> length ex_key \<in> {16, 24, 32} \<and>
   outcome (aesEncrypt ex_other [1, 2, 3] ex_iv ex_key) = Resolved ex_ciphertext \<and>
   outcome (aesDecryptLarge ex_other ex_ciphertext ex_iv ex_key) = Resolved [1, 2, 3] \<and>
   outcome (aesDecryptSmall ex_imports ex_other ex_ciphertext ex_iv ex_key) = Resolved [1, 2, 3]"
proof -
  have iv: "length ex_iv = 16"
    by (simp add: ex_iv_def)
  have key: "length ex_key \<in> {16, 24, 32}"
    by (simp add: ex_key_def)
  note r = aes_roundtrip [OF ex_aes_contracts(3) ex_aes_contracts(1) ex_prims_inverse iv key,
      where p = "[1, 2, 3]"]
  from r ex_aes(1) have
    "outcome (aesDecryptLarge ex_other ex_ciphertext ex_iv ex_key) = Resolved [1, 2, 3] \<and>
     outcome (aesDecryptSmall ex_imports ex_other ex_ciphertext ex_iv ex_key) = Resolved [1, 2, 3]"
    by (elim exE conjE) simp
  with iv key ex_aes(1) show ?thesis
    by blast
qed

end
